theory Spec2Isabelle
  imports Complex_Main
begin

section \<open>Sentiment analysis API: the inference pipeline of \<open>src/app.py\<close>\<close>

text \<open>
  The embedding follows \<open>src/app.py\<close>: \<open>load_model\<close>, \<open>preprocess_text\<close>,
  \<open>truncate_text\<close>, \<open>analyze_sentiment\<close> and the handler \<open>batch_analyze\<close>.

  Conventions.
  \<^item> A Python \<open>str\<close> is a \<open>string\<close>; one \<open>char\<close> stands for one code point below 256,
    so \<open>length\<close> is Python's \<open>len\<close> on such text. Text with code points from 256 on is
    outside the embedding.
  \<^item> A Python \<open>float\<close> is idealised as a \<open>real\<close>.
  \<^item> A Python \<open>dict\<close> is a map; a key that is absent maps to \<open>None\<close>.
  \<^item> Library code (\<open>emoji.demojize\<close>, \<open>transformers.pipeline\<close>, the loaded model,
    \<open>time.time\<close>, \<open>repr\<close>, the sqlite insert) is a field of the record \<open>env\<close>.
  \<^item> The module's global \<open>models_cache\<close> and the history table are fields of the record
    \<open>world\<close>, which every operation takes and returns; the same record logs each call
    of \<open>pipeline\<close>, of a model and of \<open>time.time\<close>.
  \<^item> An exception is a value: \<open>Inl\<close> of the message \<open>str(e)\<close>.
  \<^item> \<open>print\<close> is not modelled.
\<close>

subsection \<open>Characters\<close>

definition code :: "char \<Rightarrow> nat" where
  "code c = of_char c"

text \<open>
  \<open>str.isspace\<close> on one code point; the regular expression class \<open>\s\<close> and the
  separators of \<open>str.split()\<close> and \<open>str.strip()\<close> are the same set. Below 256 these are
  TAB..CR, FS..US, the space, NEL and the no-break space.
\<close>

definition isspace :: "char \<Rightarrow> bool" where
  "isspace c = (let n = code c in
     (9 \<le> n \<and> n \<le> 13) \<or> (28 \<le> n \<and> n \<le> 32) \<or> n = 133 \<or> n = 160)"

definition isdigit :: "char \<Rightarrow> bool" where
  "isdigit c = (let n = code c in 48 \<le> n \<and> n \<le> 57)"

text \<open>
  \<open>str.upper\<close> on one code point. The capital of the sharp s is two letters. The
  capitals of the micro sign (181) and of y with diaeresis (255) lie beyond 255; both
  are kept as they are, which changes no test the program makes on the result (neither
  capital is a letter of \<open>STAR\<close>, a digit or white space).
\<close>

definition upper_char :: "char \<Rightarrow> string" where
  "upper_char c = (let n = code c in
     if 97 \<le> n \<and> n \<le> 122 then [char_of (n - 32)]
     else if n = 223 then ''SS''
     else if 224 \<le> n \<and> n \<le> 254 \<and> n \<noteq> 247 then [char_of (n - 32)]
     else [c])"

definition upper :: "string \<Rightarrow> string" where
  "upper s = concat (map upper_char s)"

subsection \<open>Text normalisation: \<open>preprocess_text\<close> and \<open>truncate_text\<close>\<close>

text \<open>
  The URL pattern is
  \<^verbatim>\<open>http[s]?://(?:[a-zA-Z]|[0-9]|[$-_@.&+]|[!*\\(\\),]|(?:%[0-9a-fA-F][0-9a-fA-F]))+\<close>.
  In the third class \<open>$-_\<close> is the range 36..95. Every character that can start the last
  alternative (a percent sign, 37) is already in that range, so the repeated group matches
  the longest run of characters of the first four classes.
\<close>

definition url_char :: "char \<Rightarrow> bool" where
  "url_char c = (let n = code c in
     (97 \<le> n \<and> n \<le> 122) \<or> (65 \<le> n \<and> n \<le> 90)
     \<or> (48 \<le> n \<and> n \<le> 57)
     \<or> (36 \<le> n \<and> n \<le> 95) \<or> c = CHR ''@'' \<or> c = CHR ''.'' \<or> c = CHR ''&'' \<or> c = CHR ''+''
     \<or> c = CHR ''!'' \<or> c = CHR ''*'' \<or> n = 92 \<or> c = CHR ''('' \<or> c = CHR '')'' \<or> c = CHR '','')"

fun startswith :: "string \<Rightarrow> string \<Rightarrow> string option" where
  "startswith s [] = Some s"
| "startswith [] (p # ps) = None"
| "startswith (c # cs) (p # ps) = (if c = p then startswith cs ps else None)"

text \<open>
  \<open>match_url s\<close>: the pattern matched at the start of \<open>s\<close>; the result is what follows
  the match.
\<close>

definition match_url :: "string \<Rightarrow> string option" where
  "match_url s =
     (case startswith s ''http'' of
        None \<Rightarrow> None
      | Some r \<Rightarrow>
          (case (case startswith r ''s://'' of
                   Some b \<Rightarrow> Some b
                 | None \<Rightarrow> startswith r ''://'') of
             None \<Rightarrow> None
           | Some b \<Rightarrow>
               (case b of
                  [] \<Rightarrow> None
                | c # cs \<Rightarrow> if url_char c then Some (dropWhile url_char cs) else None)))"

text \<open>\<open>re.sub(pattern, '', text)\<close>: leftmost matches, not overlapping, are removed.\<close>

function remove_urls :: "string \<Rightarrow> string" where
  "remove_urls [] = []"
| "remove_urls (c # cs) =
     (case match_url (c # cs) of
        Some r \<Rightarrow> remove_urls r
      | None \<Rightarrow> c # remove_urls cs)"
  by pat_completeness auto
termination
proof (relation "measure length")
  show "wf (measure length)" by simp
next
  fix c :: char and cs :: string
  show "(cs, c # cs) \<in> measure length" by simp
next
  fix c :: char and cs r :: string
  assume m: "match_url (c # cs) = Some r"
  have sw: "startswith s p = Some t \<Longrightarrow> length t \<le> length s" for s p t
    by (induction s p rule: startswith.induct) (auto split: if_splits)
  from m obtain a where a: "startswith (c # cs) ''http'' = Some a"
    by (auto simp: match_url_def split: option.splits)
  from m a obtain b where b: "startswith a ''s://'' = Some b \<or> startswith a ''://'' = Some b"
    and rb: "(case b of [] \<Rightarrow> None
              | d # ds \<Rightarrow> if url_char d then Some (dropWhile url_char ds) else None) = Some r"
    by (auto simp: match_url_def split: option.splits)
  from rb obtain d ds where bd: "b = d # ds" and r: "r = dropWhile url_char ds"
    by (auto split: list.splits if_splits)
  have "length r \<le> length ds" using r by (simp add: length_dropWhile_le)
  moreover have "length b \<le> length a" using b sw by blast
  moreover have "length a \<le> length (c # cs)" using a sw by blast
  ultimately show "(r, c # cs) \<in> measure length" using bd by simp
qed

text \<open>\<open>re.sub(r'[@#]', '', text)\<close>\<close>

definition remove_symbols :: "string \<Rightarrow> string" where
  "remove_symbols s = filter (\<lambda>c. c \<noteq> CHR ''@'' \<and> c \<noteq> CHR ''#'') s"

text \<open>\<open>re.sub(r'\s+', ' ', text)\<close>\<close>

function collapse_spaces :: "string \<Rightarrow> string" where
  "collapse_spaces [] = []"
| "collapse_spaces (c # cs) =
     (if isspace c then CHR '' '' # collapse_spaces (dropWhile isspace cs)
      else c # collapse_spaces cs)"
  by pat_completeness auto
termination
  by (relation "measure length") (auto simp: le_imp_less_Suc length_dropWhile_le)

definition strip :: "string \<Rightarrow> string" where
  "strip s = rev (dropWhile isspace (rev (dropWhile isspace s)))"

text \<open>
  \<open>preprocess_text\<close>; the first argument is \<open>emoji.demojize\<close> with the delimiters
  \<open>(" ", " ")\<close>.
\<close>

definition preprocess_text :: "(string \<Rightarrow> string) \<Rightarrow> string \<Rightarrow> string" where
  "preprocess_text demoj text =
     (if text = [] then []
      else strip (collapse_spaces (remove_symbols (remove_urls (demoj text)))))"

definition truncate_text :: "string \<Rightarrow> nat \<Rightarrow> string" where
  "truncate_text text max_length =
     (if length text > max_length then take max_length text else text)"

subsection \<open>Label normalisation (lines 134 to 143 of \<open>analyze_sentiment\<close>)\<close>

text \<open>\<open>needle in s\<close> on strings.\<close>

fun contains :: "string \<Rightarrow> string \<Rightarrow> bool" where
  "contains [] needle = (needle = [])"
| "contains (c # cs) needle = (startswith (c # cs) needle \<noteq> None \<or> contains cs needle)"

text \<open>
  \<open>s.split()\<close>: the maximal runs of characters that are not white space.
  \<open>split_from cur s\<close> has read \<open>cur\<close> of the current run.
\<close>

fun split_from :: "string \<Rightarrow> string \<Rightarrow> string list" where
  "split_from cur [] = (if cur = [] then [] else [cur])"
| "split_from cur (c # cs) =
     (if isspace c then (if cur = [] then split_from [] cs else cur # split_from [] cs)
      else split_from (cur @ [c]) cs)"

definition split :: "string \<Rightarrow> string list" where
  "split s = split_from [] s"

text \<open>
  \<open>int(tok)\<close> on a token without white space: an optional sign, then decimal digits,
  where one underscore may stand between two digits. \<open>None\<close> is the \<open>ValueError\<close>.
  (CPython from 3.11 on also refuses tokens of more than 4300 digits; the bound is not
  modelled.)
\<close>

definition digit_val :: "char \<Rightarrow> int" where
  "digit_val c = int (code c) - 48"

fun int_digits :: "int \<Rightarrow> string \<Rightarrow> int option" where
  "int_digits acc [] = Some acc"
| "int_digits acc [c] = (if isdigit c then Some (10 * acc + digit_val c) else None)"
| "int_digits acc (c # d # ds) =
     (if isdigit c then int_digits (10 * acc + digit_val c) (d # ds)
      else if c = CHR ''_'' \<and> isdigit d then int_digits (10 * acc + digit_val d) ds
      else None)"

definition int_unsigned :: "string \<Rightarrow> int option" where
  "int_unsigned s =
     (case s of
        [] \<Rightarrow> None
      | c # cs \<Rightarrow> if isdigit c then int_digits (digit_val c) cs else None)"

definition py_int :: "string \<Rightarrow> int option" where
  "py_int s =
     (case s of
        [] \<Rightarrow> None
      | c # cs \<Rightarrow>
          if c = CHR ''+'' then int_unsigned cs
          else if c = CHR ''-'' then map_option uminus (int_unsigned cs)
          else int_unsigned s)"

text \<open>
  The statements between \<open>sentiment = result['label'].upper()\<close> and the end of the
  \<open>if 'STAR' in sentiment\<close> block. The argument is the label as the model gave it,
  \<open>rep\<close> is Python's \<open>repr\<close>; the result is the value of \<open>sentiment\<close> or the message
  of the exception raised.
\<close>

definition sentiment_of_label :: "(string \<Rightarrow> string) \<Rightarrow> string \<Rightarrow> string + string" where
  "sentiment_of_label rep label =
     (let sentiment = upper label in
      if contains sentiment ''STAR'' then
        (case split sentiment of
           [] \<Rightarrow> Inl ''list index out of range''
         | tok # _ \<Rightarrow>
             (case py_int tok of
                None \<Rightarrow> Inl (''invalid literal for int() with base 10: '' @ rep tok)
              | Some stars \<Rightarrow>
                  if stars \<le> 2 then Inr ''NEGATIVE''
                  else if stars = 3 then Inr ''NEUTRAL''
                  else Inr ''POSITIVE''))
      else Inr sentiment)"

text \<open>
  \<open>round(x, ndigits)\<close> on the idealised floats: the nearest multiple of
  \<open>10 ^ -ndigits\<close>, a tie going to the even one.
\<close>

definition py_round :: "real \<Rightarrow> nat \<Rightarrow> real" where
  "py_round x ndigits =
     (let y = x * 10 ^ ndigits; f = \<lfloor>y\<rfloor>; d = y - of_int f
      in of_int (if d < 1 / 2 then f
                 else if 1 / 2 < d then f + 1
                 else if even f then f else f + 1) / 10 ^ ndigits)"

subsection \<open>The environment and the state\<close>

datatype pyval = Str string | Float real

type_synonym result = "string \<rightharpoonup> pyval"

type_synonym row = "string \<times> pyval \<times> pyval \<times> string"

text \<open>
  \<open>pipeline env calls name\<close> is \<open>transformers.pipeline\<close> building the model \<open>name\<close>
  after the earlier calls \<open>calls\<close>: a handle, or the message of the exception.
  \<open>invoke env calls m text\<close> is \<open>m(text)[0]\<close> read at its keys \<open>label\<close> and
  \<open>score\<close>, after the earlier model calls \<open>calls\<close>: a label and a score, or the message
  of the exception. \<open>time env n\<close> is what the call number \<open>n\<close> of \<open>time.time()\<close>
  returns. \<open>insert_ok env rows r\<close> tells whether the insert of \<open>r\<close> into the history
  table \<open>rows\<close> commits.
\<close>

record 'm env =
  demojize :: "string \<Rightarrow> string"
  pipeline :: "string list \<Rightarrow> string \<Rightarrow> string + 'm"
  invoke :: "('m \<times> string) list \<Rightarrow> 'm \<Rightarrow> string \<Rightarrow> string + (string \<times> real)"
  time :: "nat \<Rightarrow> real"
  repr :: "string \<Rightarrow> string"
  insert_ok :: "row list \<Rightarrow> row \<Rightarrow> bool"

record 'm world =
  models_cache :: "string \<rightharpoonup> 'm"
  history :: "row list"
  pipeline_calls :: "string list"
  model_calls :: "('m \<times> string) list"
  clock_reads :: nat

subsection \<open>\<open>load_model\<close>\<close>

definition model_map :: "string \<rightharpoonup> string" where
  "model_map =
     [''en'' \<mapsto> ''distilbert-base-uncased-finetuned-sst-2-english'',
      ''multilingual'' \<mapsto> ''nlptown/bert-base-multilingual-uncased-sentiment'',
      ''es'' \<mapsto> ''nlptown/bert-base-multilingual-uncased-sentiment'',
      ''fr'' \<mapsto> ''nlptown/bert-base-multilingual-uncased-sentiment'',
      ''de'' \<mapsto> ''nlptown/bert-base-multilingual-uncased-sentiment'']"

text \<open>\<open>model_map.get(language, model_map['multilingual'])\<close>\<close>

definition model_name :: "string \<Rightarrow> string" where
  "model_name language =
     (case model_map language of
        Some name \<Rightarrow> name
      | None \<Rightarrow> the (model_map ''multilingual''))"

definition load_model :: "'m env \<Rightarrow> string \<Rightarrow> 'm world \<Rightarrow> 'm option \<times> 'm world" where
  "load_model e language w =
     (case models_cache w language of
        Some m \<Rightarrow> (Some m, w)
      | None \<Rightarrow>
          (let name = model_name language;
               w1 = w\<lparr>pipeline_calls := pipeline_calls w @ [name]\<rparr>
           in case pipeline e (pipeline_calls w) name of
                Inr m \<Rightarrow> (Some m, w1\<lparr>models_cache := (models_cache w1)(language \<mapsto> m)\<rparr>)
              | Inl msg \<Rightarrow> (None, w1)))"

subsection \<open>\<open>analyze_sentiment\<close>\<close>

definition analyze_sentiment ::
  "'m env \<Rightarrow> string \<Rightarrow> string \<Rightarrow> 'm world \<Rightarrow> result \<times> 'm world" where
  "analyze_sentiment e text language w =
     (let start_time = time e (clock_reads w);
          w0 = w\<lparr>clock_reads := Suc (clock_reads w)\<rparr>;
          processed_text = truncate_text (preprocess_text (demojize e) text) 512
      in if processed_text = [] then
           ([''text'' \<mapsto> Str text,
             ''sentiment'' \<mapsto> Str ''NEUTRAL'',
             ''confidence'' \<mapsto> Float 0,
             ''error'' \<mapsto> Str ''Empty text after preprocessing''], w0)
         else
           (case load_model e language w0 of
              (None, w1) \<Rightarrow>
                ([''text'' \<mapsto> Str text, ''error'' \<mapsto> Str ''Model loading failed''], w1)
            | (Some model, w1) \<Rightarrow>
                (let w2 = w1\<lparr>model_calls := model_calls w1 @ [(model, processed_text)]\<rparr>
                 in case invoke e (model_calls w1) model processed_text of
                      Inl msg \<Rightarrow> ([''text'' \<mapsto> Str text, ''error'' \<mapsto> Str msg], w2)
                    | Inr (label, score) \<Rightarrow>
                        (case sentiment_of_label (repr e) label of
                           Inl msg \<Rightarrow> ([''text'' \<mapsto> Str text, ''error'' \<mapsto> Str msg], w2)
                         | Inr sentiment \<Rightarrow>
                             (let confidence = py_round score 4;
                                  processing_time =
                                    py_round (time e (clock_reads w2) - start_time) 3;
                                  w3 = w2\<lparr>clock_reads := Suc (clock_reads w2)\<rparr>
                              in ([''text'' \<mapsto> Str text,
                                   ''processed_text'' \<mapsto> Str processed_text,
                                   ''sentiment'' \<mapsto> Str sentiment,
                                   ''confidence'' \<mapsto> Float confidence,
                                   ''language'' \<mapsto> Str language,
                                   ''processing_time_seconds'' \<mapsto> Float processing_time],
                                  w3))))))"

subsection \<open>\<open>save_to_history\<close> and the handler \<open>batch_analyze\<close>\<close>

text \<open>
  An exception of the insert is caught inside \<open>save_to_history\<close>; the table is then as
  it was.
\<close>

definition save_to_history ::
  "'m env \<Rightarrow> string \<Rightarrow> pyval \<Rightarrow> pyval \<Rightarrow> string \<Rightarrow> 'm world \<Rightarrow> 'm world" where
  "save_to_history e text sentiment score language w =
     (let r = (text, sentiment, score, language)
      in if insert_ok e (history w) r then w\<lparr>history := history w @ [r]\<rparr> else w)"

text \<open>
  The JSON body of a batch request, read at its three keys; \<open>None\<close> is an absent key.
  The value of \<open>texts\<close> is typed as a list of strings: the handler's answer to a value
  that is no list (status 400) is not a branch of the model.
\<close>

record batch_request =
  req_texts :: "string list option"
  req_language :: "string option"
  req_save_history :: "bool option"

record batch_stats =
  total :: int
  successful :: int
  failed :: int
  sentiment_distribution :: "(string \<times> int) list option"

text \<open>An answer: the payload of status 200, or \<open>Inl\<close> of an error message and its status.\<close>

type_synonym 'a response = "(string \<times> nat) + 'a"

text \<open>
  The \<open>for text in texts\<close> loop, with \<open>results\<close> as built so far. \<open>None\<close> is a
  \<open>KeyError\<close> of \<open>result['sentiment']\<close> or \<open>result['confidence']\<close>, which leaves the
  handler.
\<close>

fun batch_loop ::
  "'m env \<Rightarrow> string \<Rightarrow> bool \<Rightarrow> string list \<Rightarrow> result list \<Rightarrow> 'm world
     \<Rightarrow> result list option \<times> 'm world" where
  "batch_loop e language save_history [] results w = (Some results, w)"
| "batch_loop e language save_history (text # texts) results w =
     (case analyze_sentiment e text language w of
        (result, w1) \<Rightarrow>
          if result ''error'' = None \<and> save_history then
            (case (result ''sentiment'', result ''confidence'') of
               (Some s, Some c) \<Rightarrow>
                 batch_loop e language save_history texts (results @ [result])
                   (save_to_history e text s c language w1)
             | _ \<Rightarrow> (None, w1))
          else batch_loop e language save_history texts (results @ [result]) w1)"

text \<open>The statistics of lines 234 to 248; \<open>None\<close> is again a \<open>KeyError\<close>.\<close>

definition batch_statistics :: "string list \<Rightarrow> result list \<Rightarrow> batch_stats option" where
  "batch_statistics texts results =
     (let succ = filter (\<lambda>r. r ''error'' = None) results;
          stats = \<lparr>total = int (length texts),
                   successful = int (length succ),
                   failed = int (length texts) - int (length succ),
                   sentiment_distribution = None\<rparr>
      in if succ \<noteq> [] then
           (case those (map (\<lambda>r. r ''sentiment'') succ) of
              None \<Rightarrow> None
            | Some sentiments \<Rightarrow>
                Some (stats\<lparr>sentiment_distribution :=
                  Some [(''POSITIVE'', int (count_list sentiments (Str ''POSITIVE''))),
                        (''NEGATIVE'', int (count_list sentiments (Str ''NEGATIVE''))),
                        (''NEUTRAL'', int (count_list sentiments (Str ''NEUTRAL'')))]\<rparr>))
         else Some stats)"

text \<open>
  The body of \<open>batch_analyze\<close>. An exception that leaves the handler is answered by the
  application's handler for status 500.
\<close>

definition batch_analyze ::
  "'m env \<Rightarrow> batch_request \<Rightarrow> 'm world
     \<Rightarrow> (result list \<times> batch_stats) response \<times> 'm world" where
  "batch_analyze e data w =
     (case req_texts data of
        None \<Rightarrow> (Inl (''Missing required field: texts'', 400), w)
      | Some texts \<Rightarrow>
          (let language = (case req_language data of None \<Rightarrow> ''en'' | Some l \<Rightarrow> l);
               save_history = (case req_save_history data of None \<Rightarrow> True | Some b \<Rightarrow> b)
           in if length texts > 100 then (Inl (''Maximum 100 texts per batch'', 400), w)
              else
                (case batch_loop e language save_history texts [] w of
                   (None, w1) \<Rightarrow> (Inl (''Internal server error'', 500), w1)
                 | (Some results, w1) \<Rightarrow>
                     (case batch_statistics texts results of
                        None \<Rightarrow> (Inl (''Internal server error'', 500), w1)
                      | Some stats \<Rightarrow> (Inr (results, stats), w1)))))"

subsection \<open>A concrete environment\<close>

text \<open>
  Modelled from the spec: \<open>emoji.demojize\<close> is library code and not under src/. Section
  4.1 has it replace each emoji by a textual description between spaces. Of the code
  points below 256 the library's table holds the copyright sign (169) and the registered
  sign (174), under the names \<open>copyright\<close> and \<open>registered\<close>.
\<close>

definition demojize_char :: "char \<Rightarrow> string" where
  "demojize_char c =
     (if code c = 169 then '' copyright ''
      else if code c = 174 then '' registered ''
      else [c])"

definition demojize_latin1 :: "string \<Rightarrow> string" where
  "demojize_latin1 s = concat (map demojize_char s)"

text \<open>
  A model handle is the name of its model. The stand-in for the English model answers
  by two key words and raises on a third; the stand-in for the multilingual model
  answers in stars.
\<close>

definition toy_model :: "string \<Rightarrow> string \<Rightarrow> string + (string \<times> real)" where
  "toy_model m text =
     (if contains text ''crash'' then Inl ''out of memory''
      else if m = ''distilbert-base-uncased-finetuned-sst-2-english'' then
        (if contains text ''love'' then Inr (''POSITIVE'', 99987 / 100000)
         else Inr (''NEGATIVE'', 9 / 10))
      else
        (if contains text ''love'' then Inr (''5 stars'', 7 / 10)
         else if contains text ''okay'' then Inr (''3 stars'', 1 / 2)
         else Inr (''1 star'', 6 / 10)))"

definition env_ok :: "string env" where
  "env_ok =
     \<lparr>demojize = demojize_latin1,
      pipeline = (\<lambda>calls name. Inr name),
      invoke = (\<lambda>calls m text. toy_model m text),
      time = (\<lambda>n. real n),
      repr = (\<lambda>s. [char_of (39 :: nat)] @ s @ [char_of (39 :: nat)]),
      insert_ok = (\<lambda>rows r. True)\<rparr>"

text \<open>The same environment, where the first call of \<open>pipeline\<close> fails.\<close>

definition env_flaky :: "string env" where
  "env_flaky =
     env_ok\<lparr>pipeline := (\<lambda>calls name. if calls = [] then Inl ''no weights'' else Inr name)\<rparr>"

definition world0 :: "string world" where
  "world0 =
     \<lparr>models_cache = Map.empty, history = [], pipeline_calls = [], model_calls = [],
      clock_reads = 0\<rparr>"

subsection \<open>Texts made of URLs and white space\<close>

text \<open>
  \<open>is_url u\<close>: the URL pattern matches the whole of \<open>u\<close>, that is \<open>u\<close> is
  \<open>http://\<close> or \<open>https://\<close> and then one or more characters of the pattern's classes.
  \<open>urls_and_spaces t\<close>: every run of \<open>t\<close> between white space is such a URL.
\<close>

definition is_url :: "string \<Rightarrow> bool" where
  "is_url u =
     (case (case startswith u ''https://'' of
              Some r \<Rightarrow> Some r
            | None \<Rightarrow> startswith u ''http://'') of
        None \<Rightarrow> False
      | Some r \<Rightarrow> r \<noteq> [] \<and> list_all url_char r)"

function urls_and_spaces :: "string \<Rightarrow> bool" where
  "urls_and_spaces [] = True"
| "urls_and_spaces (c # cs) =
     (if isspace c then urls_and_spaces cs
      else is_url (takeWhile (\<lambda>x. \<not> isspace x) (c # cs))
           \<and> urls_and_spaces (dropWhile (\<lambda>x. \<not> isspace x) (c # cs)))"
  by pat_completeness auto
termination
  by (relation "measure length") (auto simp: le_imp_less_Suc length_dropWhile_le)

subsection \<open>The labels of the configured models\<close>

text \<open>
  The two models of \<open>model_map\<close> answer with the labels \<open>POSITIVE\<close> and \<open>NEGATIVE\<close>
  (the English model) and \<open>1 star\<close>, \<open>2 stars\<close>, ..., \<open>5 stars\<close> (the multilingual
  model). \<open>schema_label\<close> holds of these labels, and of every label that is \<open>POSITIVE\<close>
  or \<open>NEGATIVE\<close> up to case or contains \<open>STAR\<close> up to case; \<open>schema_model e\<close> says
  that the models of the environment \<open>e\<close> answer with such labels only.
\<close>

definition schema_label :: "string \<Rightarrow> bool" where
  "schema_label label =
     (upper label = ''POSITIVE'' \<or> upper label = ''NEGATIVE'' \<or> contains (upper label) ''STAR'')"

definition schema_model :: "'m env \<Rightarrow> bool" where
  "schema_model e =
     (\<forall>calls m t label score. invoke e calls m t = Inr (label, score) \<longrightarrow> schema_label label)"

text \<open>Two batch requests.\<close>

definition batch0 :: batch_request where
  "batch0 = \<lparr>req_texts = Some [''I love it'', ''crash'', '''', ''bad''],
             req_language = None, req_save_history = None\<rparr>"

definition batch_blank :: batch_request where
  "batch_blank = \<lparr>req_texts = Some ['' '', ''''], req_language = Some ''fr'',
                   req_save_history = Some False\<rparr>"

section \<open>Properties\<close>

subsection \<open>Model selection and the model cache\<close>

lemma model_name_en: "model_name ''en'' = ''distilbert-base-uncased-finetuned-sst-2-english''"
  by (simp add: model_name_def model_map_def)

lemma model_name_other:
  "language \<noteq> ''en'' \<Longrightarrow>
   model_name language = ''nlptown/bert-base-multilingual-uncased-sentiment''"
  by (simp add: model_name_def model_map_def)

lemma load_model_hit:
  "models_cache w language = Some m \<Longrightarrow> load_model e language w = (Some m, w)"
  by (simp add: load_model_def)

lemma load_model_miss_ok:
  "models_cache w language = None \<Longrightarrow>
   pipeline e (pipeline_calls w) (model_name language) = Inr m \<Longrightarrow>
   load_model e language w =
     (Some m, w\<lparr>pipeline_calls := pipeline_calls w @ [model_name language],
               models_cache := (models_cache w)(language \<mapsto> m)\<rparr>)"
  by (simp add: load_model_def Let_def)

lemma load_model_miss_fail:
  "models_cache w language = None \<Longrightarrow>
   pipeline e (pipeline_calls w) (model_name language) = Inl msg \<Longrightarrow>
   load_model e language w =
     (None, w\<lparr>pipeline_calls := pipeline_calls w @ [model_name language]\<rparr>)"
  by (simp add: load_model_def Let_def)

lemma load_model_Some_cached:
  "load_model e language w = (Some m, w1) \<Longrightarrow> models_cache w1 language = Some m"
  by (auto simp: load_model_def Let_def split: option.splits sum.splits)

lemma load_model_calls:
  "load_model e language w = (r, w1) \<Longrightarrow>
   pipeline_calls w1 = pipeline_calls w \<or>
   pipeline_calls w1 = pipeline_calls w @ [model_name language]"
  by (auto simp: load_model_def Let_def split: option.splits sum.splits)

lemma load_model_other_fields:
  "load_model e language w = (r, w1) \<Longrightarrow>
   model_calls w1 = model_calls w \<and> clock_reads w1 = clock_reads w \<and> history w1 = history w"
  by (auto simp: load_model_def Let_def split: option.splits sum.splits)

text \<open>
  Claim C6. The tag \<open>en\<close> selects the English binary classifier, every other tag
  (\<open>es\<close>, \<open>fr\<close>, \<open>de\<close>, \<open>multilingual\<close> and any tag not in the table) selects the
  multilingual star-rating classifier. A tag is never an error by itself: when the tag is
  not cached, \<open>load_model\<close> returns no model exactly when \<open>pipeline\<close> raises for the
  model selected.
\<close>

theorem model_selection_policy:
  "model_name ''en'' = ''distilbert-base-uncased-finetuned-sst-2-english''
   \<and> (language \<noteq> ''en'' \<longrightarrow>
        model_name language = ''nlptown/bert-base-multilingual-uncased-sentiment'')
   \<and> (models_cache w language = None \<longrightarrow>
        (fst (load_model e language w) = None)
          = (\<exists>msg. pipeline e (pipeline_calls w) (model_name language) = Inl msg))"
proof (intro conjI impI)
  show "model_name ''en'' = ''distilbert-base-uncased-finetuned-sst-2-english''"
    by (rule model_name_en)
next
  assume "language \<noteq> ''en''"
  then show "model_name language = ''nlptown/bert-base-multilingual-uncased-sentiment''"
    by (rule model_name_other)
next
  assume miss: "models_cache w language = None"
  show "(fst (load_model e language w) = None)
          = (\<exists>msg. pipeline e (pipeline_calls w) (model_name language) = Inl msg)"
  proof (cases "pipeline e (pipeline_calls w) (model_name language)")
    case (Inl msg)
    with miss show ?thesis by (simp add: load_model_miss_fail)
  next
    case (Inr m)
    with miss show ?thesis by (simp add: load_model_miss_ok)
  qed
qed

theorem model_selection_policy_witness:
  "''klingon'' \<noteq> ''en''
   \<and> model_name ''klingon'' = ''nlptown/bert-base-multilingual-uncased-sentiment''
   \<and> model_name ''es'' = ''nlptown/bert-base-multilingual-uncased-sentiment''
   \<and> models_cache world0 ''klingon'' = None
   \<and> fst (load_model env_ok ''klingon'' world0) \<noteq> None"
  using model_selection_policy [where language = "''klingon''" and w = world0 and e = env_ok]
    model_selection_policy [where language = "''es''" and w = world0 and e = env_ok]
  by (simp add: world0_def env_ok_def)

text \<open>
  Claim C8. When a call of \<open>load_model\<close> returns a model, the next call for the same
  tag returns the same model and leaves the state as it is, so it calls \<open>pipeline\<close> no
  more; the first call has called \<open>pipeline\<close> at most once.
\<close>

theorem load_model_idempotent:
  "load_model e language w = (Some m, w1) \<Longrightarrow>
   load_model e language w1 = (Some m, w1)
   \<and> (pipeline_calls w1 = pipeline_calls w
        \<or> pipeline_calls w1 = pipeline_calls w @ [model_name language])"
  using load_model_Some_cached load_model_hit load_model_calls by metis

theorem load_model_idempotent_witness:
  "load_model env_ok ''en'' world0
     = (Some ''distilbert-base-uncased-finetuned-sst-2-english'',
        world0\<lparr>pipeline_calls := [''distilbert-base-uncased-finetuned-sst-2-english''],
               models_cache := [''en'' \<mapsto> ''distilbert-base-uncased-finetuned-sst-2-english'']\<rparr>)
   \<and> load_model env_ok ''en''
        (world0\<lparr>pipeline_calls := [''distilbert-base-uncased-finetuned-sst-2-english''],
                models_cache := [''en'' \<mapsto> ''distilbert-base-uncased-finetuned-sst-2-english'']\<rparr>)
     = (Some ''distilbert-base-uncased-finetuned-sst-2-english'',
        world0\<lparr>pipeline_calls := [''distilbert-base-uncased-finetuned-sst-2-english''],
               models_cache := [''en'' \<mapsto> ''distilbert-base-uncased-finetuned-sst-2-english'']\<rparr>)"
proof -
  have first: "load_model env_ok ''en'' world0
     = (Some ''distilbert-base-uncased-finetuned-sst-2-english'',
        world0\<lparr>pipeline_calls := [''distilbert-base-uncased-finetuned-sst-2-english''],
               models_cache := [''en'' \<mapsto> ''distilbert-base-uncased-finetuned-sst-2-english'']\<rparr>)"
    by (simp add: load_model_def Let_def model_name_en world0_def env_ok_def)
  from load_model_idempotent [OF first] first show ?thesis by simp
qed

subsection \<open>The paths of \<open>analyze_sentiment\<close>\<close>

lemma truncate_text_take: "truncate_text t n = take n t"
  by (simp add: truncate_text_def)

lemma truncate_text_empty: "(truncate_text t 512 = []) = (t = [])"
  by (auto simp: truncate_text_def)

lemma analyze_empty:
  "truncate_text (preprocess_text (demojize e) text) 512 = [] \<Longrightarrow>
   analyze_sentiment e text language w =
     ([''text'' \<mapsto> Str text, ''sentiment'' \<mapsto> Str ''NEUTRAL'', ''confidence'' \<mapsto> Float 0,
       ''error'' \<mapsto> Str ''Empty text after preprocessing''],
      w\<lparr>clock_reads := Suc (clock_reads w)\<rparr>)"
  by (simp add: analyze_sentiment_def Let_def)

lemma analyze_load_failed:
  "truncate_text (preprocess_text (demojize e) text) 512 \<noteq> [] \<Longrightarrow>
   load_model e language (w\<lparr>clock_reads := Suc (clock_reads w)\<rparr>) = (None, w1) \<Longrightarrow>
   analyze_sentiment e text language w =
     ([''text'' \<mapsto> Str text, ''error'' \<mapsto> Str ''Model loading failed''], w1)"
  by (simp add: analyze_sentiment_def Let_def)

lemma analyze_invoke_raised:
  "truncate_text (preprocess_text (demojize e) text) 512 \<noteq> [] \<Longrightarrow>
   load_model e language (w\<lparr>clock_reads := Suc (clock_reads w)\<rparr>) = (Some m, w1) \<Longrightarrow>
   invoke e (model_calls w1) m (truncate_text (preprocess_text (demojize e) text) 512) = Inl msg \<Longrightarrow>
   analyze_sentiment e text language w =
     ([''text'' \<mapsto> Str text, ''error'' \<mapsto> Str msg],
      w1\<lparr>model_calls := model_calls w1 @ [(m, truncate_text (preprocess_text (demojize e) text) 512)]\<rparr>)"
  by (simp add: analyze_sentiment_def Let_def)

lemma analyze_label_raised:
  "truncate_text (preprocess_text (demojize e) text) 512 \<noteq> [] \<Longrightarrow>
   load_model e language (w\<lparr>clock_reads := Suc (clock_reads w)\<rparr>) = (Some m, w1) \<Longrightarrow>
   invoke e (model_calls w1) m (truncate_text (preprocess_text (demojize e) text) 512)
     = Inr (label, score) \<Longrightarrow>
   sentiment_of_label (repr e) label = Inl msg \<Longrightarrow>
   analyze_sentiment e text language w =
     ([''text'' \<mapsto> Str text, ''error'' \<mapsto> Str msg],
      w1\<lparr>model_calls := model_calls w1 @ [(m, truncate_text (preprocess_text (demojize e) text) 512)]\<rparr>)"
  by (simp add: analyze_sentiment_def Let_def)

lemma analyze_success:
  "truncate_text (preprocess_text (demojize e) text) 512 \<noteq> [] \<Longrightarrow>
   load_model e language (w\<lparr>clock_reads := Suc (clock_reads w)\<rparr>) = (Some m, w1) \<Longrightarrow>
   invoke e (model_calls w1) m (truncate_text (preprocess_text (demojize e) text) 512)
     = Inr (label, score) \<Longrightarrow>
   sentiment_of_label (repr e) label = Inr s \<Longrightarrow>
   analyze_sentiment e text language w =
     ([''text'' \<mapsto> Str text,
       ''processed_text'' \<mapsto> Str (truncate_text (preprocess_text (demojize e) text) 512),
       ''sentiment'' \<mapsto> Str s,
       ''confidence'' \<mapsto> Float (py_round score 4),
       ''language'' \<mapsto> Str language,
       ''processing_time_seconds'' \<mapsto>
          Float (py_round (time e (clock_reads w1) - time e (clock_reads w)) 3)],
      w1\<lparr>model_calls := model_calls w1 @ [(m, truncate_text (preprocess_text (demojize e) text) 512)],
         clock_reads := Suc (clock_reads w1)\<rparr>)"
  by (simp add: analyze_sentiment_def Let_def)

text \<open>The three shapes of a result.\<close>

lemma analyze_shapes:
  "(truncate_text (preprocess_text (demojize e) text) 512 = [] \<and>
      fst (analyze_sentiment e text language w) =
        [''text'' \<mapsto> Str text, ''sentiment'' \<mapsto> Str ''NEUTRAL'', ''confidence'' \<mapsto> Float 0,
         ''error'' \<mapsto> Str ''Empty text after preprocessing''])
   \<or> (truncate_text (preprocess_text (demojize e) text) 512 \<noteq> [] \<and>
      (\<exists>msg. fst (analyze_sentiment e text language w) =
        [''text'' \<mapsto> Str text, ''error'' \<mapsto> Str msg]))
   \<or> (truncate_text (preprocess_text (demojize e) text) 512 \<noteq> [] \<and>
      (\<exists>s c t. fst (analyze_sentiment e text language w) =
        [''text'' \<mapsto> Str text,
         ''processed_text'' \<mapsto> Str (truncate_text (preprocess_text (demojize e) text) 512),
         ''sentiment'' \<mapsto> Str s, ''confidence'' \<mapsto> Float c, ''language'' \<mapsto> Str language,
         ''processing_time_seconds'' \<mapsto> Float t]))"
proof (cases "truncate_text (preprocess_text (demojize e) text) 512 = []")
  case True
  then show ?thesis by (simp add: analyze_empty)
next
  case ne: False
  obtain r w1 where l: "load_model e language (w\<lparr>clock_reads := Suc (clock_reads w)\<rparr>) = (r, w1)"
    by (cases "load_model e language (w\<lparr>clock_reads := Suc (clock_reads w)\<rparr>)")
  show ?thesis
  proof (cases r)
    case None
    with ne l have "fst (analyze_sentiment e text language w) =
        [''text'' \<mapsto> Str text, ''error'' \<mapsto> Str ''Model loading failed'']"
      by (simp add: analyze_load_failed)
    with ne show ?thesis by blast
  next
    case (Some m)
    show ?thesis
    proof (cases "invoke e (model_calls w1) m (truncate_text (preprocess_text (demojize e) text) 512)")
      case (Inl msg)
      with ne l Some have "fst (analyze_sentiment e text language w) =
          [''text'' \<mapsto> Str text, ''error'' \<mapsto> Str msg]"
        by (simp add: analyze_invoke_raised)
      with ne show ?thesis by blast
    next
      case (Inr p)
      obtain label score where p: "p = (label, score)" by (cases p)
      show ?thesis
      proof (cases "sentiment_of_label (repr e) label")
        case (Inl msg)
        with ne l Some Inr p have "fst (analyze_sentiment e text language w) =
            [''text'' \<mapsto> Str text, ''error'' \<mapsto> Str msg]"
          by (simp add: analyze_label_raised)
        with ne show ?thesis by blast
      next
        case sr: (Inr s)
        with ne l Some Inr p have "fst (analyze_sentiment e text language w) =
          [''text'' \<mapsto> Str text,
           ''processed_text'' \<mapsto> Str (truncate_text (preprocess_text (demojize e) text) 512),
           ''sentiment'' \<mapsto> Str s,
           ''confidence'' \<mapsto> Float (py_round score 4),
           ''language'' \<mapsto> Str language,
           ''processing_time_seconds'' \<mapsto>
              Float (py_round (time e (clock_reads w1) - time e (clock_reads w)) 3)]"
          by (simp add: analyze_success)
        with ne show ?thesis by blast
      qed
    qed
  qed
qed

lemma analyze_model_calls:
  "model_calls (snd (analyze_sentiment e text language w)) = model_calls w
   \<or> (\<exists>m. model_calls (snd (analyze_sentiment e text language w))
          = model_calls w @ [(m, truncate_text (preprocess_text (demojize e) text) 512)])"
proof (cases "truncate_text (preprocess_text (demojize e) text) 512 = []")
  case True
  then show ?thesis by (simp add: analyze_empty)
next
  case ne: False
  obtain r w1 where l: "load_model e language (w\<lparr>clock_reads := Suc (clock_reads w)\<rparr>) = (r, w1)"
    by (cases "load_model e language (w\<lparr>clock_reads := Suc (clock_reads w)\<rparr>)")
  from load_model_other_fields [OF l] have mc: "model_calls w1 = model_calls w" by simp
  show ?thesis
  proof (cases r)
    case None
    with ne l mc show ?thesis by (simp add: analyze_load_failed)
  next
    case (Some m)
    show ?thesis
    proof (cases "invoke e (model_calls w1) m (truncate_text (preprocess_text (demojize e) text) 512)")
      case (Inl msg)
      with ne l Some mc show ?thesis by (simp add: analyze_invoke_raised)
    next
      case (Inr p)
      obtain label score where p: "p = (label, score)" by (cases p)
      show ?thesis
      proof (cases "sentiment_of_label (repr e) label")
        case (Inl msg)
        with ne l Some Inr p mc show ?thesis by (simp add: analyze_label_raised)
      next
        case sr: (Inr s)
        with ne l Some Inr p mc show ?thesis by (simp add: analyze_success)
      qed
    qed
  qed
qed

subsection \<open>The fields of a result\<close>

text \<open>
  Claim C1, as amended. A result of \<open>analyze_sentiment\<close> never lacks both the error
  and the pair of sentiment and confidence; sentiment and confidence come together; and
  the result carries the error beside sentiment and confidence exactly when the text is
  empty after preprocessing. In every other case exactly one of the two is there.
\<close>

theorem result_population:
  "(fst (analyze_sentiment e text language w) ''error'' \<noteq> None
      \<or> (fst (analyze_sentiment e text language w) ''sentiment'' \<noteq> None
          \<and> fst (analyze_sentiment e text language w) ''confidence'' \<noteq> None))
   \<and> ((fst (analyze_sentiment e text language w) ''sentiment'' \<noteq> None)
        = (fst (analyze_sentiment e text language w) ''confidence'' \<noteq> None))
   \<and> ((fst (analyze_sentiment e text language w) ''error'' \<noteq> None
         \<and> fst (analyze_sentiment e text language w) ''sentiment'' \<noteq> None)
        = (truncate_text (preprocess_text (demojize e) text) 512 = []))"
  using analyze_shapes [of e "text" language w]
  by (elim disjE conjE exE) simp_all

theorem result_population_witness:
  "fst (analyze_sentiment env_ok ''I love this'' ''en'' world0) ''error'' = None
   \<and> fst (analyze_sentiment env_ok ''I love this'' ''en'' world0) ''sentiment''
       = Some (Str ''POSITIVE'')
   \<and> fst (analyze_sentiment env_ok ''I love this'' ''en'' world0) ''confidence'' \<noteq> None
   \<and> truncate_text (preprocess_text (demojize env_ok) ''I love this'') 512 \<noteq> []"
proof -
  have s: "fst (analyze_sentiment env_ok ''I love this'' ''en'' world0) ''sentiment''
             = Some (Str ''POSITIVE'')"
    by code_simp
  have p: "truncate_text (preprocess_text (demojize env_ok) ''I love this'') 512 \<noteq> []"
    by code_simp
  from result_population [of env_ok "''I love this''" "''en''" world0] s p show ?thesis
    by simp
qed

text \<open>
  The claim as stated, that a result never carries both, fails on a text of one space:
  the result has the sentiment, the confidence and the error.
\<close>

theorem both_populated_counterexample:
  "fst (analyze_sentiment env_ok '' '' ''en'' world0) ''sentiment'' = Some (Str ''NEUTRAL'')
   \<and> fst (analyze_sentiment env_ok '' '' ''en'' world0) ''confidence'' = Some (Float 0)
   \<and> fst (analyze_sentiment env_ok '' '' ''en'' world0) ''error''
       = Some (Str ''Empty text after preprocessing'')"
  by code_simp

text \<open>
  Claim C10. When the call of the model raises, the result has exactly the two keys
  \<open>text\<close>, with the input as it was given, and \<open>error\<close>, with the message of the
  exception; \<open>language\<close>, \<open>processed_text\<close>, \<open>sentiment\<close>, \<open>confidence\<close> and
  \<open>processing_time_seconds\<close> are absent.
\<close>

theorem invocation_error_result:
  assumes "truncate_text (preprocess_text (demojize e) text) 512 \<noteq> []"
    and "load_model e language (w\<lparr>clock_reads := Suc (clock_reads w)\<rparr>) = (Some m, w1)"
    and "invoke e (model_calls w1) m (truncate_text (preprocess_text (demojize e) text) 512) = Inl msg"
  shows "fst (analyze_sentiment e text language w) = [''text'' \<mapsto> Str text, ''error'' \<mapsto> Str msg]
    \<and> dom (fst (analyze_sentiment e text language w)) = {''text'', ''error''}
    \<and> fst (analyze_sentiment e text language w) ''language'' = None
    \<and> fst (analyze_sentiment e text language w) ''processed_text'' = None
    \<and> fst (analyze_sentiment e text language w) ''sentiment'' = None
    \<and> fst (analyze_sentiment e text language w) ''confidence'' = None
    \<and> fst (analyze_sentiment e text language w) ''processing_time_seconds'' = None"
proof -
  have eq: "fst (analyze_sentiment e text language w) = [''text'' \<mapsto> Str text, ''error'' \<mapsto> Str msg]"
    using assms by (simp add: analyze_invoke_raised)
  show ?thesis unfolding eq by auto
qed

theorem invocation_error_result_witness:
  "truncate_text (preprocess_text (demojize env_ok) ''crash'') 512 \<noteq> []
   \<and> fst (load_model env_ok ''en'' (world0\<lparr>clock_reads := Suc (clock_reads world0)\<rparr>))
       = Some ''distilbert-base-uncased-finetuned-sst-2-english''
   \<and> fst (analyze_sentiment env_ok ''crash'' ''en'' world0)
       = [''text'' \<mapsto> Str ''crash'', ''error'' \<mapsto> Str ''out of memory'']"
proof -
  let ?m = "''distilbert-base-uncased-finetuned-sst-2-english''"
  let ?w1 = "world0\<lparr>clock_reads := Suc (clock_reads world0),
                     pipeline_calls := [?m], models_cache := [''en'' \<mapsto> ?m]\<rparr>"
  have p: "truncate_text (preprocess_text (demojize env_ok) ''crash'') 512 = ''crash''"
    by code_simp
  have ne: "truncate_text (preprocess_text (demojize env_ok) ''crash'') 512 \<noteq> []"
    unfolding p by simp
  have l: "load_model env_ok ''en'' (world0\<lparr>clock_reads := Suc (clock_reads world0)\<rparr>)
             = (Some ?m, ?w1)"
    by (simp add: load_model_def Let_def model_name_en world0_def env_ok_def)
  have i: "invoke env_ok (model_calls ?w1) ?m
             (truncate_text (preprocess_text (demojize env_ok) ''crash'') 512) = Inl ''out of memory''"
    unfolding p by (simp add: env_ok_def toy_model_def)
  from invocation_error_result [OF ne l i] ne l show ?thesis by simp
qed

subsection \<open>Truncation\<close>

text \<open>
  Claim C9. \<open>truncate_text\<close> with the limit 512 keeps the first 512 characters, so its
  result has at most 512; and \<open>analyze_sentiment\<close> calls a model at most once, on the
  truncated text.
\<close>

theorem model_input_truncated:
  "truncate_text t 512 = take 512 t
   \<and> length (truncate_text t 512) \<le> 512
   \<and> (model_calls (snd (analyze_sentiment e text0 language w)) = model_calls w
       \<or> (\<exists>m. model_calls (snd (analyze_sentiment e text0 language w))
              = model_calls w @ [(m, take 512 (preprocess_text (demojize e) text0))]))"
  using analyze_model_calls [of e text0 language w]
  by (simp add: truncate_text_take)

subsection \<open>A failed load\<close>

text \<open>
  Claim C7. When the tag is not cached and \<open>pipeline\<close> raises, \<open>load_model\<close> returns
  no model and leaves the cache as it was; the next call for the tag calls \<open>pipeline\<close>
  again and returns what that call gives. An analysis that reaches the load (its text is
  not empty after preprocessing) returns the keys \<open>text\<close> and \<open>error\<close> only, with the
  error \<open>Model loading failed\<close>.
\<close>

theorem load_failure_not_cached:
  assumes miss: "models_cache w language = None"
    and fail: "pipeline e (pipeline_calls w) (model_name language) = Inl msg"
  shows "load_model e language w
           = (None, w\<lparr>pipeline_calls := pipeline_calls w @ [model_name language]\<rparr>)
    \<and> models_cache (snd (load_model e language w)) = models_cache w
    \<and> pipeline_calls (snd (load_model e language (snd (load_model e language w))))
        = pipeline_calls w @ [model_name language, model_name language]
    \<and> fst (load_model e language (snd (load_model e language w)))
        = (case pipeline e (pipeline_calls w @ [model_name language]) (model_name language) of
             Inl msg' \<Rightarrow> None | Inr m \<Rightarrow> Some m)
    \<and> (truncate_text (preprocess_text (demojize e) text0) 512 \<noteq> [] \<longrightarrow>
          fst (analyze_sentiment e text0 language w)
            = [''text'' \<mapsto> Str text0, ''error'' \<mapsto> Str ''Model loading failed'']
          \<and> fst (analyze_sentiment e text0 language w) ''sentiment'' = None
          \<and> fst (analyze_sentiment e text0 language w) ''confidence'' = None
          \<and> models_cache (snd (analyze_sentiment e text0 language w)) = models_cache w)"
proof -
  let ?w1 = "w\<lparr>pipeline_calls := pipeline_calls w @ [model_name language]\<rparr>"
  have first: "load_model e language w = (None, ?w1)"
    using miss fail by (rule load_model_miss_fail)
  have miss1: "models_cache ?w1 language = None" using miss by simp
  have second: "pipeline_calls (snd (load_model e language ?w1))
        = pipeline_calls w @ [model_name language, model_name language]
      \<and> fst (load_model e language ?w1)
        = (case pipeline e (pipeline_calls w @ [model_name language]) (model_name language) of
             Inl msg' \<Rightarrow> None | Inr m \<Rightarrow> Some m)"
  proof (cases "pipeline e (pipeline_calls ?w1) (model_name language)")
    case (Inl msg')
    from load_model_miss_fail [OF miss1 Inl] Inl show ?thesis by simp
  next
    case (Inr m)
    from load_model_miss_ok [OF miss1 Inr] Inr show ?thesis by simp
  qed
  have an: "fst (analyze_sentiment e text0 language w)
            = [''text'' \<mapsto> Str text0, ''error'' \<mapsto> Str ''Model loading failed'']
          \<and> fst (analyze_sentiment e text0 language w) ''sentiment'' = None
          \<and> fst (analyze_sentiment e text0 language w) ''confidence'' = None
          \<and> models_cache (snd (analyze_sentiment e text0 language w)) = models_cache w"
    if ne: "truncate_text (preprocess_text (demojize e) text0) 512 \<noteq> []"
  proof -
    let ?w0 = "w\<lparr>clock_reads := Suc (clock_reads w)\<rparr>"
    have "load_model e language ?w0
            = (None, ?w0\<lparr>pipeline_calls := pipeline_calls ?w0 @ [model_name language]\<rparr>)"
      using miss fail by (intro load_model_miss_fail) simp_all
    from analyze_load_failed [OF ne this] show ?thesis by simp
  qed
  from first second an show ?thesis by simp
qed

theorem load_failure_not_cached_witness:
  "models_cache world0 ''en'' = None
   \<and> pipeline env_flaky (pipeline_calls world0) (model_name ''en'') = Inl ''no weights''
   \<and> fst (load_model env_flaky ''en'' world0) = None
   \<and> fst (load_model env_flaky ''en'' (snd (load_model env_flaky ''en'' world0)))
       = Some ''distilbert-base-uncased-finetuned-sst-2-english''
   \<and> truncate_text (preprocess_text (demojize env_flaky) ''fine'') 512 \<noteq> []
   \<and> fst (analyze_sentiment env_flaky ''fine'' ''en'' world0)
       = [''text'' \<mapsto> Str ''fine'', ''error'' \<mapsto> Str ''Model loading failed'']"
proof -
  have miss: "models_cache world0 ''en'' = None" by (simp add: world0_def)
  have fail: "pipeline env_flaky (pipeline_calls world0) (model_name ''en'') = Inl ''no weights''"
    by (simp add: env_flaky_def world0_def)
  have ne: "truncate_text (preprocess_text (demojize env_flaky) ''fine'') 512 \<noteq> []"
    by code_simp
  have again: "pipeline env_flaky (pipeline_calls world0 @ [model_name ''en'']) (model_name ''en'')
                 = Inr ''distilbert-base-uncased-finetuned-sst-2-english''"
    by (simp add: env_flaky_def model_name_en)
  from load_failure_not_cached [OF miss fail, of "''fine''"] miss fail ne again
  show ?thesis by - (elim conjE, simp)
qed

subsection \<open>Label normalisation\<close>

lemmas label_eval = sentiment_of_label_def Let_def split_def py_int_def int_unsigned_def
  isdigit_def isspace_def code_def digit_val_def

lemma binary_label:
  "upper label = ''POSITIVE'' \<or> upper label = ''NEGATIVE'' \<Longrightarrow>
   sentiment_of_label rep label = Inr (upper label)"
  by (auto simp: sentiment_of_label_def Let_def)

lemma star_label:
  assumes "upper label = d # '' STAR'' \<or> upper label = d # '' STARS''"
  shows "(d = CHR ''1'' \<or> d = CHR ''2'' \<longrightarrow> sentiment_of_label rep label = Inr ''NEGATIVE'')
    \<and> (d = CHR ''3'' \<longrightarrow> sentiment_of_label rep label = Inr ''NEUTRAL'')
    \<and> (d = CHR ''4'' \<or> d = CHR ''5'' \<longrightarrow> sentiment_of_label rep label = Inr ''POSITIVE'')"
  using assms by (auto simp: label_eval)

text \<open>\<open>py_round x n\<close> is within half a unit of the last of its \<open>n\<close> decimal places of \<open>x\<close>.\<close>

lemma py_round_error: "\<bar>py_round x n - x\<bar> \<le> 1 / (2 * 10 ^ n)"
proof -
  define y where "y = x * 10 ^ n"
  define f where "f = \<lfloor>y\<rfloor>"
  define d where "d = y - of_int f"
  define k where "k = (if d < 1 / 2 then f else if 1 / 2 < d then f + 1 else if even f then f else f + 1)"
  have d0: "0 \<le> d" and d1: "d < 1" unfolding d_def f_def by linarith+
  have pr: "py_round x n = of_int k / 10 ^ n"
    unfolding py_round_def Let_def k_def d_def f_def y_def by simp
  have "\<bar>of_int k - y\<bar> \<le> 1 / 2"
    using d0 d1 unfolding k_def d_def by (auto split: if_splits)
  then have A: "\<bar>of_int k - y\<bar> \<le> 1 / 2" .
  have "py_round x n - x = (of_int k - y) / 10 ^ n"
    unfolding pr y_def by (simp add: field_simps)
  then have "\<bar>py_round x n - x\<bar> = \<bar>of_int k - y\<bar> / 10 ^ n"
    by (simp add: abs_divide)
  also have "\<dots> \<le> (1 / 2) / 10 ^ n"
    using A by (intro divide_right_mono) simp_all
  also have "\<dots> = 1 / (2 * 10 ^ n)" by simp
  finally show ?thesis .
qed

text \<open>
  \<open>py_round x n\<close> is a whole number of units of the last of \<open>n\<close> decimal places, the
  one nearest to \<open>x\<close>, and the even one where two are equally near. This determines
  \<open>py_round x n\<close>.
\<close>

lemma py_round_nearest:
  "\<exists>k. py_round x n = of_int k / 10 ^ n
       \<and> \<bar>of_int k - x * 10 ^ n\<bar> \<le> 1 / 2
       \<and> (\<bar>of_int k - x * 10 ^ n\<bar> = 1 / 2 \<longrightarrow> even k)"
proof -
  define y where "y = x * 10 ^ n"
  define f where "f = \<lfloor>y\<rfloor>"
  define d where "d = y - of_int f"
  define k where
    "k = (if d < 1 / 2 then f else if 1 / 2 < d then f + 1 else if even f then f else f + 1)"
  have d0: "0 \<le> d" and d1: "d < 1" unfolding d_def f_def by linarith+
  have pr: "py_round x n = of_int k / 10 ^ n"
    unfolding py_round_def Let_def k_def d_def f_def y_def by simp
  have near: "\<bar>of_int k - y\<bar> \<le> 1 / 2"
    using d0 d1 unfolding k_def d_def by (auto split: if_splits)
  have tie: "even k" if "\<bar>of_int k - y\<bar> = 1 / 2"
  proof -
    from that d0 d1 have "d = 1 / 2"
      unfolding k_def d_def by (auto split: if_splits)
    then show ?thesis unfolding k_def by simp
  qed
  from pr near tie show ?thesis unfolding y_def by blast
qed

lemma py_round_example: "py_round (99987 / 100000) 4 = 9999 / 10000"
  by (simp add: py_round_def Let_def)

text \<open>
  Claim C4. A label that is \<open>POSITIVE\<close> or \<open>NEGATIVE\<close> up to case is returned in
  capitals. A label that is, up to case, a digit, a space and \<open>star\<close> or \<open>stars\<close> gives
  \<open>NEGATIVE\<close> for the digits 1 and 2, \<open>NEUTRAL\<close> for 3 and \<open>POSITIVE\<close> for 4 and 5.
  Whenever the label gives a sentiment, the result reports that sentiment and, as its
  confidence, the score of the model rounded to 4 decimal places: the confidence is
  \<open>k / 10000\<close> for the whole number \<open>k\<close> nearest to \<open>10000\<close> times the score, the even
  one of two that are equally near. The score is not changed in any other way, whatever
  the label.
\<close>

theorem label_normalisation:
  "((upper label = ''POSITIVE'' \<or> upper label = ''NEGATIVE'') \<longrightarrow>
       sentiment_of_label rep label = Inr (upper label))
   \<and> ((upper label = d # '' STAR'' \<or> upper label = d # '' STARS'') \<longrightarrow>
         (d = CHR ''1'' \<or> d = CHR ''2'' \<longrightarrow> sentiment_of_label rep label = Inr ''NEGATIVE'')
       \<and> (d = CHR ''3'' \<longrightarrow> sentiment_of_label rep label = Inr ''NEUTRAL'')
       \<and> (d = CHR ''4'' \<or> d = CHR ''5'' \<longrightarrow> sentiment_of_label rep label = Inr ''POSITIVE''))
   \<and> ((truncate_text (preprocess_text (demojize e) text0) 512 \<noteq> []
        \<and> load_model e language (w\<lparr>clock_reads := Suc (clock_reads w)\<rparr>) = (Some m, w1)
        \<and> invoke e (model_calls w1) m (truncate_text (preprocess_text (demojize e) text0) 512)
            = Inr (label, score)
        \<and> sentiment_of_label (repr e) label = Inr s) \<longrightarrow>
         fst (analyze_sentiment e text0 language w) ''sentiment'' = Some (Str s)
       \<and> fst (analyze_sentiment e text0 language w) ''confidence''
           = Some (Float (py_round score 4))
       \<and> fst (analyze_sentiment e text0 language w) ''error'' = None
       \<and> (\<exists>k. fst (analyze_sentiment e text0 language w) ''confidence''
                 = Some (Float (of_int k / 10 ^ 4))
              \<and> \<bar>of_int k - score * 10 ^ 4\<bar> \<le> 1 / 2
              \<and> (\<bar>of_int k - score * 10 ^ 4\<bar> = 1 / 2 \<longrightarrow> even k)))"
proof (intro conjI impI)
  assume "upper label = ''POSITIVE'' \<or> upper label = ''NEGATIVE''"
  then show "sentiment_of_label rep label = Inr (upper label)" by (rule binary_label)
next
  assume st: "upper label = d # '' STAR'' \<or> upper label = d # '' STARS''"
  {
    assume "d = CHR ''1'' \<or> d = CHR ''2''"
    with star_label [OF st] show "sentiment_of_label rep label = Inr ''NEGATIVE''" by blast
  next
    assume "d = CHR ''3''"
    with star_label [OF st] show "sentiment_of_label rep label = Inr ''NEUTRAL''" by blast
  next
    assume "d = CHR ''4'' \<or> d = CHR ''5''"
    with star_label [OF st] show "sentiment_of_label rep label = Inr ''POSITIVE''" by blast
  }
next
  assume h: "truncate_text (preprocess_text (demojize e) text0) 512 \<noteq> []
        \<and> load_model e language (w\<lparr>clock_reads := Suc (clock_reads w)\<rparr>) = (Some m, w1)
        \<and> invoke e (model_calls w1) m (truncate_text (preprocess_text (demojize e) text0) 512)
            = Inr (label, score)
        \<and> sentiment_of_label (repr e) label = Inr s"
  then have h1: "truncate_text (preprocess_text (demojize e) text0) 512 \<noteq> []"
    and h2: "load_model e language (w\<lparr>clock_reads := Suc (clock_reads w)\<rparr>) = (Some m, w1)"
    and h3: "invoke e (model_calls w1) m (truncate_text (preprocess_text (demojize e) text0) 512)
            = Inr (label, score)"
    and h4: "sentiment_of_label (repr e) label = Inr s"
    by simp_all
  have eq: "analyze_sentiment e text0 language w =
     ([''text'' \<mapsto> Str text0,
       ''processed_text'' \<mapsto> Str (truncate_text (preprocess_text (demojize e) text0) 512),
       ''sentiment'' \<mapsto> Str s,
       ''confidence'' \<mapsto> Float (py_round score 4),
       ''language'' \<mapsto> Str language,
       ''processing_time_seconds'' \<mapsto>
          Float (py_round (time e (clock_reads w1) - time e (clock_reads w)) 3)],
      w1\<lparr>model_calls := model_calls w1 @ [(m, truncate_text (preprocess_text (demojize e) text0) 512)],
         clock_reads := Suc (clock_reads w1)\<rparr>)"
    by (rule analyze_success [OF h1 h2 h3 h4])
  show "fst (analyze_sentiment e text0 language w) ''sentiment'' = Some (Str s)"
    unfolding eq by simp
  show c: "fst (analyze_sentiment e text0 language w) ''confidence''
             = Some (Float (py_round score 4))"
    unfolding eq by simp
  show "fst (analyze_sentiment e text0 language w) ''error'' = None"
    unfolding eq by simp
  from py_round_nearest [of score 4] obtain k where
    "py_round score 4 = of_int k / 10 ^ 4"
    and "\<bar>of_int k - score * 10 ^ 4\<bar> \<le> 1 / 2"
    and "\<bar>of_int k - score * 10 ^ 4\<bar> = 1 / 2 \<longrightarrow> even k"
    by (elim exE conjE) (rule that)
  with c show "\<exists>k. fst (analyze_sentiment e text0 language w) ''confidence''
                 = Some (Float (of_int k / 10 ^ 4))
              \<and> \<bar>of_int k - score * 10 ^ 4\<bar> \<le> 1 / 2
              \<and> (\<bar>of_int k - score * 10 ^ 4\<bar> = 1 / 2 \<longrightarrow> even k)"
    by (intro exI [of _ k]) (simp only: simp_thms)
qed

theorem label_normalisation_witness:
  "upper ''Positive'' = ''POSITIVE''
   \<and> sentiment_of_label (repr env_ok) ''Positive'' = Inr ''POSITIVE''
   \<and> upper ''5 stars'' = CHR ''5'' # '' STARS''
   \<and> sentiment_of_label (repr env_ok) ''5 stars'' = Inr ''POSITIVE''
   \<and> upper ''1 star'' = CHR ''1'' # '' STAR''
   \<and> sentiment_of_label (repr env_ok) ''1 star'' = Inr ''NEGATIVE''
   \<and> fst (analyze_sentiment env_ok ''I love this'' ''fr'' world0) ''sentiment''
       = Some (Str ''POSITIVE'')
   \<and> fst (analyze_sentiment env_ok ''I love this'' ''fr'' world0) ''confidence''
       = Some (Float (7 / 10))
   \<and> invoke env_ok [] ''distilbert-base-uncased-finetuned-sst-2-english'' ''I love this''
       = Inr (''POSITIVE'', 99987 / 100000)
   \<and> fst (analyze_sentiment env_ok ''I love this'' ''en'' world0) ''sentiment''
       = Some (Str ''POSITIVE'')
   \<and> fst (analyze_sentiment env_ok ''I love this'' ''en'' world0) ''confidence''
       = Some (Float (9999 / 10000))"
proof -
  let ?m = "''nlptown/bert-base-multilingual-uncased-sentiment''"
  let ?w1 = "world0\<lparr>clock_reads := Suc (clock_reads world0),
                     pipeline_calls := [?m], models_cache := [''fr'' \<mapsto> ?m]\<rparr>"
  let ?n = "''distilbert-base-uncased-finetuned-sst-2-english''"
  let ?v1 = "world0\<lparr>clock_reads := Suc (clock_reads world0),
                     pipeline_calls := [?n], models_cache := [''en'' \<mapsto> ?n]\<rparr>"
  have u1: "upper ''Positive'' = ''POSITIVE''" by code_simp
  have u2: "upper ''5 stars'' = CHR ''5'' # '' STARS''" by code_simp
  have u3: "upper ''1 star'' = CHR ''1'' # '' STAR''" by code_simp
  have u4: "upper ''POSITIVE'' = ''POSITIVE''" by code_simp
  have p: "truncate_text (preprocess_text (demojize env_ok) ''I love this'') 512 = ''I love this''"
    by code_simp
  have l: "load_model env_ok ''fr'' (world0\<lparr>clock_reads := Suc (clock_reads world0)\<rparr>)
             = (Some ?m, ?w1)"
    by (simp add: load_model_def Let_def model_name_other world0_def env_ok_def)
  have i: "invoke env_ok (model_calls ?w1) ?m
             (truncate_text (preprocess_text (demojize env_ok) ''I love this'') 512)
           = Inr (''5 stars'', 7 / 10)"
    unfolding p by (simp add: env_ok_def toy_model_def)
  have le: "load_model env_ok ''en'' (world0\<lparr>clock_reads := Suc (clock_reads world0)\<rparr>)
             = (Some ?n, ?v1)"
    by (simp add: load_model_def Let_def model_name_en world0_def env_ok_def)
  have ie: "invoke env_ok (model_calls ?v1) ?n
             (truncate_text (preprocess_text (demojize env_ok) ''I love this'') 512)
           = Inr (''POSITIVE'', 99987 / 100000)"
    unfolding p by (simp add: env_ok_def toy_model_def)
  have i0: "invoke env_ok [] ?n ''I love this'' = Inr (''POSITIVE'', 99987 / 100000)"
    by (simp add: env_ok_def toy_model_def)
  have r7: "py_round (7 / 10) 4 = 7 / 10" by (simp add: py_round_def Let_def)
  have r9: "py_round (99987 / 100000) 4 = 9999 / 10000" by (rule py_round_example)
  note a = label_normalisation [where label = "''Positive''" and rep = "repr env_ok"]
  note b = label_normalisation [where label = "''5 stars''" and rep = "repr env_ok"
      and d = "CHR ''5''" and e = env_ok and ?text0.0 = "''I love this''" and language = "''fr''"
      and w = world0 and m = ?m and ?w1.0 = ?w1 and score = "7 / 10" and s = "''POSITIVE''"]
  note c = label_normalisation [where label = "''1 star''" and rep = "repr env_ok"
      and d = "CHR ''1''"]
  note en = label_normalisation [where label = "''POSITIVE''" and rep = "repr env_ok"
      and d = "CHR ''5''" and e = env_ok and ?text0.0 = "''I love this''" and language = "''en''"
      and w = world0 and m = ?n and ?w1.0 = ?v1 and score = "99987 / 100000"
      and s = "''POSITIVE''"]
  have c1: "sentiment_of_label (repr env_ok) ''Positive'' = Inr ''POSITIVE''"
    using a [THEN conjunct1] u1 by simp
  have c3: "sentiment_of_label (repr env_ok) ''1 star'' = Inr ''NEGATIVE''"
    using c [THEN conjunct2, THEN conjunct1] u3 by simp
  have s5: "sentiment_of_label (repr env_ok) ''5 stars'' = Inr ''POSITIVE''"
    using b [THEN conjunct2, THEN conjunct1] u2 by simp
  have sp: "sentiment_of_label (repr env_ok) ''POSITIVE'' = Inr ''POSITIVE''"
    using en [THEN conjunct1] u4 by simp
  have c4: "fst (analyze_sentiment env_ok ''I love this'' ''fr'' world0) ''sentiment''
       = Some (Str ''POSITIVE'')
   \<and> fst (analyze_sentiment env_ok ''I love this'' ''fr'' world0) ''confidence''
       = Some (Float (py_round (7 / 10) 4))"
    using b [THEN conjunct2, THEN conjunct2] p l i s5 by simp
  have c5: "fst (analyze_sentiment env_ok ''I love this'' ''en'' world0) ''sentiment''
       = Some (Str ''POSITIVE'')
   \<and> fst (analyze_sentiment env_ok ''I love this'' ''en'' world0) ''confidence''
       = Some (Float (py_round (99987 / 100000) 4))"
    using en [THEN conjunct2, THEN conjunct2] p le ie sp by simp
  from u1 u2 u3 c1 c3 s5 c4 c5 i0 r7 r9 show ?thesis by simp
qed

subsection \<open>Text that is empty after preprocessing\<close>

lemma startswith_Some: "startswith s p = Some r \<longleftrightarrow> s = p @ r"
  by (induction s p rule: startswith.induct) auto

lemma startswith_append: "startswith (p @ r) p = Some r"
  by (simp add: startswith_Some)

lemma isspace_not_url_char: "isspace c \<Longrightarrow> \<not> url_char c"
  by (auto simp: isspace_def url_char_def code_def Let_def)

lemma match_url_space: "isspace c \<Longrightarrow> match_url (c # s) = None"
  by (auto simp: match_url_def isspace_def code_def Let_def split: option.splits)

lemma dropWhile_stop: "s = [] \<or> \<not> P (hd s) \<Longrightarrow> dropWhile P s = s"
  by (cases s) auto

lemma match_url_whole:
  assumes u: "is_url u" and stop: "s = [] \<or> \<not> url_char (hd s)"
  shows "match_url (u @ s) = Some s"
proof -
  from u obtain r where sw: "startswith u ''https://'' = Some r \<or> startswith u ''http://'' = Some r"
    and rne: "r \<noteq> []" and rall: "list_all url_char r"
    by (auto simp: is_url_def split: option.splits)
  from rne obtain c cs where r: "r = c # cs" by (cases r) auto
  from rall r have c: "url_char c" and cs: "\<forall>x\<in>set cs. url_char x"
    by (auto simp: list_all_iff)
  have dw: "dropWhile url_char (cs @ s) = s"
    using cs stop by (simp add: dropWhile_append2 dropWhile_stop)
  from sw have "u = ''https://'' @ c # cs \<or> u = ''http://'' @ c # cs"
    unfolding startswith_Some r .
  then show ?thesis
  proof
    assume "u = ''https://'' @ c # cs"
    then have "u @ s = ''https://'' @ c # (cs @ s)" by simp
    then show ?thesis using c dw by (simp add: match_url_def)
  next
    assume "u = ''http://'' @ c # cs"
    then have "u @ s = ''http://'' @ c # (cs @ s)" by simp
    then show ?thesis using c dw by (simp add: match_url_def)
  qed
qed

lemma is_url_nonempty: "is_url u \<Longrightarrow> u \<noteq> []"
  by (auto simp: is_url_def split: option.splits)

lemma remove_urls_whole:
  assumes u: "is_url u" and stop: "s = [] \<or> \<not> url_char (hd s)"
  shows "remove_urls (u @ s) = remove_urls s"
proof -
  from is_url_nonempty [OF u] obtain c cs where ucs: "u = c # cs" by (cases u) auto
  have "remove_urls ((c # cs) @ s) = remove_urls s"
    using match_url_whole [OF u stop] ucs by simp
  then show ?thesis using ucs by simp
qed

lemma remove_urls_blank:
  "urls_and_spaces t \<Longrightarrow> \<forall>c\<in>set (remove_urls t). isspace c"
proof (induction t rule: urls_and_spaces.induct)
  case 1
  then show ?case by simp
next
  case (2 c cs)
  show ?case
  proof (cases "isspace c")
    case True
    with "2.prems" have "urls_and_spaces cs" by simp
    from "2.IH"(1) [OF True this] True show ?thesis by (simp add: match_url_space)
  next
    case False
    let ?tok = "takeWhile (\<lambda>x. \<not> isspace x) (c # cs)"
    let ?rest = "dropWhile (\<lambda>x. \<not> isspace x) (c # cs)"
    from False "2.prems" have u: "is_url ?tok" and r: "urls_and_spaces ?rest" by simp_all
    have stop: "?rest = [] \<or> \<not> url_char (hd ?rest)"
    proof (cases "?rest = []")
      case True
      then show ?thesis by simp
    next
      case ne: False
      from hd_dropWhile [OF ne] have "isspace (hd ?rest)" by simp
      then show ?thesis by (simp add: isspace_not_url_char)
    qed
    have "remove_urls (?tok @ ?rest) = remove_urls ?rest"
      using u stop by (rule remove_urls_whole)
    then have eq: "remove_urls (c # cs) = remove_urls ?rest"
      by (simp only: takeWhile_dropWhile_id)
    show ?thesis unfolding eq by (rule "2.IH"(2) [OF False r])
  qed
qed

lemma collapse_spaces_blank:
  assumes a: "\<forall>c\<in>set t. isspace c"
  shows "strip (collapse_spaces t) = []"
proof (cases t)
  case Nil
  then show ?thesis by (simp add: strip_def)
next
  case (Cons c cs)
  from Cons a have c: "isspace c" and dw: "dropWhile isspace cs = []" by simp_all
  have "collapse_spaces t = '' ''" unfolding Cons by (simp add: c dw)
  then show ?thesis by (simp add: strip_def isspace_def code_def)
qed

lemma preprocess_blank:
  assumes "demoj t = t" and "urls_and_spaces t"
  shows "preprocess_text demoj t = []"
proof -
  from remove_urls_blank [OF assms(2)]
  have "\<forall>c\<in>set (remove_symbols (remove_urls t)). isspace c"
    by (simp add: remove_symbols_def)
  then have "strip (collapse_spaces (remove_symbols (remove_urls t))) = []"
    by (rule collapse_spaces_blank)
  then show ?thesis using assms(1) by (simp add: preprocess_text_def)
qed

lemma preprocess_empty_input: "preprocess_text demoj [] = []"
  by (simp add: preprocess_text_def)

text \<open>
  Claim C3, as amended. When preprocessing yields the empty string,
  \<open>analyze_sentiment\<close> returns the sentiment \<open>NEUTRAL\<close>, the confidence 0.0 and the
  error \<open>Empty text after preprocessing\<close>, and the state changes by one reading of the
  clock only: no model is loaded and none is called. The empty input is such a text, and
  so is every text made of white space and of URLs that the pattern matches whole, when
  \<open>demojize\<close> leaves it as it is.
\<close>

theorem empty_after_preprocessing:
  "(preprocess_text (demojize e) text0 = [] \<longrightarrow>
      analyze_sentiment e text0 language w =
        ([''text'' \<mapsto> Str text0, ''sentiment'' \<mapsto> Str ''NEUTRAL'',
          ''confidence'' \<mapsto> Float 0,
          ''error'' \<mapsto> Str ''Empty text after preprocessing''],
         w\<lparr>clock_reads := Suc (clock_reads w)\<rparr>)
      \<and> model_calls (snd (analyze_sentiment e text0 language w)) = model_calls w
      \<and> pipeline_calls (snd (analyze_sentiment e text0 language w)) = pipeline_calls w)
   \<and> preprocess_text (demojize e) [] = []
   \<and> (demojize e text0 = text0 \<and> urls_and_spaces text0 \<longrightarrow>
        preprocess_text (demojize e) text0 = [])"
proof (intro conjI impI)
  assume em: "preprocess_text (demojize e) text0 = []"
  then have t: "truncate_text (preprocess_text (demojize e) text0) 512 = []"
    by (simp add: truncate_text_def)
  note eq = analyze_empty [OF t, of language w]
  show "analyze_sentiment e text0 language w =
        ([''text'' \<mapsto> Str text0, ''sentiment'' \<mapsto> Str ''NEUTRAL'',
          ''confidence'' \<mapsto> Float 0,
          ''error'' \<mapsto> Str ''Empty text after preprocessing''],
         w\<lparr>clock_reads := Suc (clock_reads w)\<rparr>)"
    by (rule eq)
  show "model_calls (snd (analyze_sentiment e text0 language w)) = model_calls w"
    unfolding eq by simp
  show "pipeline_calls (snd (analyze_sentiment e text0 language w)) = pipeline_calls w"
    unfolding eq by simp
next
  show "preprocess_text (demojize e) [] = []" by (rule preprocess_empty_input)
next
  assume "demojize e text0 = text0 \<and> urls_and_spaces text0"
  then show "preprocess_text (demojize e) text0 = []"
    by (intro preprocess_blank) simp_all
qed

theorem empty_after_preprocessing_witness:
  "demojize env_ok '' http://x.com/a?b=1  https://y.org '' = '' http://x.com/a?b=1  https://y.org ''
   \<and> urls_and_spaces '' http://x.com/a?b=1  https://y.org ''
   \<and> preprocess_text (demojize env_ok) '' http://x.com/a?b=1  https://y.org '' = []
   \<and> fst (analyze_sentiment env_ok '' http://x.com/a?b=1  https://y.org '' ''en'' world0)
       = [''text'' \<mapsto> Str '' http://x.com/a?b=1  https://y.org '',
          ''sentiment'' \<mapsto> Str ''NEUTRAL'', ''confidence'' \<mapsto> Float 0,
          ''error'' \<mapsto> Str ''Empty text after preprocessing'']
   \<and> model_calls (snd (analyze_sentiment env_ok '' http://x.com/a?b=1  https://y.org '' ''en''
         world0)) = []"
proof -
  have d: "demojize env_ok '' http://x.com/a?b=1  https://y.org ''
             = '' http://x.com/a?b=1  https://y.org ''"
    by code_simp
  have u: "urls_and_spaces '' http://x.com/a?b=1  https://y.org ''"
    by code_simp
  note t = empty_after_preprocessing [where e = env_ok
      and ?text0.0 = "'' http://x.com/a?b=1  https://y.org ''" and language = "''en''"
      and w = world0]
  from t d u have p: "preprocess_text (demojize env_ok) '' http://x.com/a?b=1  https://y.org '' = []"
    by blast
  from t p have "analyze_sentiment env_ok '' http://x.com/a?b=1  https://y.org '' ''en'' world0 =
        ([''text'' \<mapsto> Str '' http://x.com/a?b=1  https://y.org '',
          ''sentiment'' \<mapsto> Str ''NEUTRAL'', ''confidence'' \<mapsto> Float 0,
          ''error'' \<mapsto> Str ''Empty text after preprocessing''],
         world0\<lparr>clock_reads := Suc (clock_reads world0)\<rparr>)"
    by blast
  then show ?thesis using d u p by (simp add: world0_def)
qed

text \<open>
  The claim as stated counts text made of emoji among these. It is not: an emoji is
  replaced by its name, so the text of the copyright sign alone is preprocessed to
  \<open>copyright\<close>, the model is called on it and the result has no error.
\<close>

theorem emoji_text_counterexample:
  "preprocess_text (demojize env_ok) [CHR 0xA9] = ''copyright''
   \<and> fst (analyze_sentiment env_ok [CHR 0xA9] ''en'' world0) ''error'' = None
   \<and> fst (analyze_sentiment env_ok [CHR 0xA9] ''en'' world0) ''sentiment''
       = Some (Str ''NEGATIVE'')
   \<and> model_calls (snd (analyze_sentiment env_ok [CHR 0xA9] ''en'' world0))
       = [(''distilbert-base-uncased-finetuned-sst-2-english'', ''copyright'')]"
  by code_simp

subsection \<open>The batch handler\<close>

lemma analyze_text_field:
  "fst (analyze_sentiment e text0 language w) ''text'' = Some (Str text0)"
  using analyze_shapes [of e text0 language w]
  by (elim disjE conjE exE) simp_all

lemma analyze_no_error_fields:
  assumes "fst (analyze_sentiment e text0 language w) ''error'' = None"
  shows "\<exists>s c. fst (analyze_sentiment e text0 language w) ''sentiment'' = Some s
             \<and> fst (analyze_sentiment e text0 language w) ''confidence'' = Some c"
  using analyze_shapes [of e text0 language w] assms
  by (elim disjE conjE exE) simp_all

lemma batch_loop_step:
  "\<exists>w1. batch_loop e l sh (t # ts) acc w
          = batch_loop e l sh ts (acc @ [fst (analyze_sentiment e t l w)]) w1"
proof -
  obtain r w1 where a: "analyze_sentiment e t l w = (r, w1)"
    by (cases "analyze_sentiment e t l w")
  show ?thesis
  proof (cases "r ''error'' = None \<and> sh")
    case True
    with a have "fst (analyze_sentiment e t l w) ''error'' = None" by simp
    from analyze_no_error_fields [OF this] a obtain s c
      where "r ''sentiment'' = Some s" and "r ''confidence'' = Some c" by auto
    with a True show ?thesis by auto
  next
    case False
    with a show ?thesis by auto
  qed
qed

lemma batch_loop_Some:
  "\<exists>rs w'. batch_loop e l sh texts acc w = (Some (acc @ rs), w') \<and> length rs = length texts"
proof (induction texts arbitrary: acc w)
  case Nil
  then show ?case by simp
next
  case (Cons t ts)
  from batch_loop_step [of e l sh t ts acc w] obtain w1 where
    s: "batch_loop e l sh (t # ts) acc w
          = batch_loop e l sh ts (acc @ [fst (analyze_sentiment e t l w)]) w1" ..
  from Cons.IH [of "acc @ [fst (analyze_sentiment e t l w)]" w1] obtain rs w' where
    "batch_loop e l sh ts (acc @ [fst (analyze_sentiment e t l w)]) w1
       = (Some ((acc @ [fst (analyze_sentiment e t l w)]) @ rs), w')"
    and "length rs = length ts" by blast
  with s have "batch_loop e l sh (t # ts) acc w
      = (Some (acc @ (fst (analyze_sentiment e t l w) # rs)), w')
     \<and> length (fst (analyze_sentiment e t l w) # rs) = length (t # ts)" by simp
  then show ?case by blast
qed

lemma batch_loop_append:
  "batch_loop e l sh (xs @ ys) acc w =
     (case batch_loop e l sh xs acc w of
        (Some rs, w1) \<Rightarrow> batch_loop e l sh ys rs w1
      | (None, w1) \<Rightarrow> (None, w1))"
proof (induction xs arbitrary: acc w)
  case Nil
  then show ?case by simp
next
  case (Cons t ts)
  obtain r w1 where a: "analyze_sentiment e t l w = (r, w1)"
    by (cases "analyze_sentiment e t l w")
  show ?case
    using a Cons.IH by (cases sh) (simp_all split: option.splits)
qed

lemma batch_loop_nth:
  assumes i: "i < length texts"
    and b: "batch_loop e l sh texts [] w = (Some rs, w')"
  shows "rs ! i = fst (analyze_sentiment e (texts ! i) l
                        (snd (batch_loop e l sh (take i texts) [] w)))"
proof -
  let ?pre = "take i texts" and ?post = "drop (Suc i) texts"
  have split: "texts = ?pre @ (texts ! i) # ?post"
    using i by (rule id_take_nth_drop)
  from batch_loop_Some [of e l sh ?pre "[]" w] obtain r1 w1 where
    p: "batch_loop e l sh ?pre [] w = (Some r1, w1)" and l1: "length r1 = length ?pre"
    by auto
  from i l1 have l1': "length r1 = i" by simp
  from batch_loop_step [of e l sh "texts ! i" ?post r1 w1] obtain w2 where
    s: "batch_loop e l sh ((texts ! i) # ?post) r1 w1
          = batch_loop e l sh ?post (r1 @ [fst (analyze_sentiment e (texts ! i) l w1)]) w2" ..
  from batch_loop_Some [of e l sh ?post "r1 @ [fst (analyze_sentiment e (texts ! i) l w1)]" w2]
  obtain r3 w3 where
    q: "batch_loop e l sh ?post (r1 @ [fst (analyze_sentiment e (texts ! i) l w1)]) w2
          = (Some ((r1 @ [fst (analyze_sentiment e (texts ! i) l w1)]) @ r3), w3)"
    by auto
  have "batch_loop e l sh (?pre @ (texts ! i) # ?post) [] w
          = (Some ((r1 @ [fst (analyze_sentiment e (texts ! i) l w1)]) @ r3), w3)"
    unfolding batch_loop_append p using s q by simp
  with split b have "rs = (r1 @ [fst (analyze_sentiment e (texts ! i) l w1)]) @ r3"
    by simp
  then have "rs ! i = fst (analyze_sentiment e (texts ! i) l w1)"
    using l1' by (simp add: nth_append)
  with p show ?thesis by simp
qed

lemma sentiment_of_label_schema:
  assumes "schema_label label" and "sentiment_of_label rep label = Inr s"
  shows "s = ''POSITIVE'' \<or> s = ''NEGATIVE'' \<or> s = ''NEUTRAL''"
proof (cases "contains (upper label) ''STAR''")
  case True
  with assms(2) show ?thesis
    by (auto simp: sentiment_of_label_def Let_def split: list.splits option.splits if_splits)
next
  case False
  with assms(2) have "s = upper label" by (simp add: sentiment_of_label_def Let_def)
  with assms(1) False show ?thesis by (auto simp: schema_label_def)
qed

lemma analyze_schema_sentiment:
  assumes sm: "schema_model e"
    and ne: "fst (analyze_sentiment e text0 language w) ''error'' = None"
  shows "fst (analyze_sentiment e text0 language w) ''sentiment'' = Some (Str ''POSITIVE'')
       \<or> fst (analyze_sentiment e text0 language w) ''sentiment'' = Some (Str ''NEGATIVE'')
       \<or> fst (analyze_sentiment e text0 language w) ''sentiment'' = Some (Str ''NEUTRAL'')"
proof (cases "truncate_text (preprocess_text (demojize e) text0) 512 = []")
  case True
  with ne show ?thesis by (simp add: analyze_empty)
next
  case nz: False
  obtain r w1 where l: "load_model e language (w\<lparr>clock_reads := Suc (clock_reads w)\<rparr>) = (r, w1)"
    by (cases "load_model e language (w\<lparr>clock_reads := Suc (clock_reads w)\<rparr>)")
  show ?thesis
  proof (cases r)
    case None
    with nz l ne show ?thesis by (simp add: analyze_load_failed)
  next
    case (Some m)
    show ?thesis
    proof (cases "invoke e (model_calls w1) m (truncate_text (preprocess_text (demojize e) text0) 512)")
      case (Inl msg)
      with nz l Some ne show ?thesis by (simp add: analyze_invoke_raised)
    next
      case (Inr p)
      obtain label score where p: "p = (label, score)" by (cases p)
      from sm Inr p have sl: "schema_label label" unfolding schema_model_def by blast
      show ?thesis
      proof (cases "sentiment_of_label (repr e) label")
        case (Inl msg)
        with nz l Some Inr p ne show ?thesis by (simp add: analyze_label_raised)
      next
        case sr: (Inr s)
        from sentiment_of_label_schema [OF sl sr]
        have s: "s = ''POSITIVE'' \<or> s = ''NEGATIVE'' \<or> s = ''NEUTRAL''" .
        from nz l Some Inr p sr
        have "fst (analyze_sentiment e text0 language w) ''sentiment'' = Some (Str s)"
          by (simp add: analyze_success)
        with s show ?thesis by blast
      qed
    qed
  qed
qed

lemma those_map_Some:
  "\<forall>x\<in>set xs. \<exists>y. f x = Some y \<Longrightarrow> those (map f xs) = Some (map (\<lambda>x. the (f x)) xs)"
  by (induction xs) auto

lemma count_list_three:
  assumes "\<forall>x\<in>set xs. x = a \<or> x = b \<or> x = c" and "a \<noteq> b" and "a \<noteq> c" and "b \<noteq> c"
  shows "count_list xs a + count_list xs b + count_list xs c = length xs"
  using assms by (induction xs) auto

lemma batch_statistics_shape:
  assumes some: "\<forall>r\<in>set rs. r ''error'' = None \<longrightarrow> (\<exists>s. r ''sentiment'' = Some s)"
  shows "\<exists>stats. batch_statistics texts rs = Some stats
     \<and> total stats = int (length texts)
     \<and> successful stats = int (length (filter (\<lambda>r. r ''error'' = None) rs))
     \<and> failed stats = total stats - successful stats
     \<and> (sentiment_distribution stats = None) = (successful stats = 0)
     \<and> ((\<forall>r\<in>set rs. r ''error'' = None \<longrightarrow>
            r ''sentiment'' = Some (Str ''POSITIVE'') \<or> r ''sentiment'' = Some (Str ''NEGATIVE'')
            \<or> r ''sentiment'' = Some (Str ''NEUTRAL'')) \<longrightarrow>
          (\<forall>d. sentiment_distribution stats = Some d \<longrightarrow>
                sum_list (map snd d) = successful stats))"
proof -
  let ?succ = "filter (\<lambda>r. r ''error'' = None) rs"
  let ?sent = "map (\<lambda>r. the (r ''sentiment'')) ?succ"
  show ?thesis
  proof (cases "?succ = []")
    case True
    then show ?thesis by (simp add: batch_statistics_def Let_def)
  next
    case False
    from some have "\<forall>r\<in>set ?succ. \<exists>y. r ''sentiment'' = Some y" by simp
    then have th: "those (map (\<lambda>r. r ''sentiment'') ?succ) = Some ?sent"
      by (rule those_map_Some)
    have cnt: "int (count_list ?sent (Str ''POSITIVE'')) + int (count_list ?sent (Str ''NEGATIVE''))
            + int (count_list ?sent (Str ''NEUTRAL'')) = int (length ?succ)"
      if k: "\<forall>r\<in>set rs. r ''error'' = None \<longrightarrow>
            r ''sentiment'' = Some (Str ''POSITIVE'') \<or> r ''sentiment'' = Some (Str ''NEGATIVE'')
            \<or> r ''sentiment'' = Some (Str ''NEUTRAL'')"
    proof -
      from k have "\<forall>x\<in>set ?sent. x = Str ''POSITIVE'' \<or> x = Str ''NEGATIVE'' \<or> x = Str ''NEUTRAL''"
        by auto
      then have "count_list ?sent (Str ''POSITIVE'') + count_list ?sent (Str ''NEGATIVE'')
            + count_list ?sent (Str ''NEUTRAL'') = length ?sent"
        by (rule count_list_three) simp_all
      then show ?thesis by (simp only: length_map flip: of_nat_add)
    qed
    from False have nz: "length ?succ \<noteq> 0" by simp
    show ?thesis
      using False th cnt nz by (simp add: batch_statistics_def Let_def add.assoc)
  qed
qed

lemma batch_loop_results:
  assumes b: "batch_loop e l sh texts [] w = (Some rs, w')" and r: "r \<in> set rs"
  shows "\<exists>t wi. r = fst (analyze_sentiment e t l wi)"
proof -
  from batch_loop_Some [of e l sh texts "[]" w] b have len: "length rs = length texts" by auto
  from r obtain i where i: "i < length rs" and ri: "r = rs ! i"
    by (auto simp: in_set_conv_nth)
  from i len have "i < length texts" by simp
  from batch_loop_nth [OF this b] ri show ?thesis by blast
qed

lemma batch_analyze_ok:
  assumes t: "req_texts data = Some texts" and n: "length texts \<le> 100"
    and l: "language = (case req_language data of None \<Rightarrow> ''en'' | Some l \<Rightarrow> l)"
    and s: "save_history = (case req_save_history data of None \<Rightarrow> True | Some b \<Rightarrow> b)"
  shows "\<exists>rs stats w'. batch_loop e language save_history texts [] w = (Some rs, w')
     \<and> length rs = length texts
     \<and> batch_statistics texts rs = Some stats
     \<and> batch_analyze e data w = (Inr (rs, stats), w')"
proof -
  from batch_loop_Some [of e language save_history texts "[]" w] obtain rs w' where
    b: "batch_loop e language save_history texts [] w = (Some rs, w')"
    and len: "length rs = length texts" by auto
  have "\<forall>r\<in>set rs. r ''error'' = None \<longrightarrow> (\<exists>s. r ''sentiment'' = Some s)"
  proof (intro ballI impI)
    fix r assume "r \<in> set rs" and ne: "r ''error'' = None"
    from batch_loop_results [OF b this(1)] obtain t wi
      where "r = fst (analyze_sentiment e t language wi)" by blast
    with analyze_no_error_fields [of e t language wi] ne
    show "\<exists>s. r ''sentiment'' = Some s" by auto
  qed
  from batch_statistics_shape [OF this, of texts] obtain stats where
    st: "batch_statistics texts rs = Some stats" by blast
  have "batch_analyze e data w = (Inr (rs, stats), w')"
    using t n b st l s by (simp add: batch_analyze_def Let_def)
  with b len st show ?thesis by blast
qed

lemma configured_labels_schema:
  "schema_label ''POSITIVE''" "schema_label ''NEGATIVE''" "schema_label ''1 star''"
  "schema_label ''2 stars''" "schema_label ''3 stars''" "schema_label ''4 stars''"
  "schema_label ''5 stars''"
  by code_simp+

lemma schema_model_env_ok: "schema_model env_ok"
  unfolding schema_model_def
proof (intro allI impI)
  fix calls m t label score
  assume "invoke env_ok calls m t = Inr (label, score)"
  then have "label = ''POSITIVE'' \<or> label = ''NEGATIVE'' \<or> label = ''5 stars''
             \<or> label = ''3 stars'' \<or> label = ''1 star''"
    by (auto simp: env_ok_def toy_model_def split: if_splits)
  then show "schema_label label" using configured_labels_schema by blast
qed

text \<open>
  Claim C5. A batch of at most 100 texts is answered with status 200, for every language
  tag: no exception leaves the handler. The results are as many as the texts; result
  number \<open>i\<close> is the result of \<open>analyze_sentiment\<close> on text number \<open>i\<close>, in the state
  that the loop over the texts before it has left, and it carries that text. When the
  call of the model raises for text number \<open>i\<close>, result number \<open>i\<close> has the message as
  its error, and the texts after it are analysed all the same.
\<close>

theorem batch_isolation:
  assumes t: "req_texts data = Some texts" and n: "length texts \<le> 100"
    and l: "language = (case req_language data of None \<Rightarrow> ''en'' | Some l \<Rightarrow> l)"
    and s: "save_history = (case req_save_history data of None \<Rightarrow> True | Some b \<Rightarrow> b)"
  shows "\<exists>results stats w'.
     batch_analyze e data w = (Inr (results, stats), w')
     \<and> length results = length texts
     \<and> (\<forall>i<length texts.
          results ! i = fst (analyze_sentiment e (texts ! i) language
                              (snd (batch_loop e language save_history (take i texts) [] w)))
          \<and> (results ! i) ''text'' = Some (Str (texts ! i))
          \<and> (\<forall>wi m w1 msg.
                wi = snd (batch_loop e language save_history (take i texts) [] w)
                \<and> truncate_text (preprocess_text (demojize e) (texts ! i)) 512 \<noteq> []
                \<and> load_model e language (wi\<lparr>clock_reads := Suc (clock_reads wi)\<rparr>) = (Some m, w1)
                \<and> invoke e (model_calls w1) m
                     (truncate_text (preprocess_text (demojize e) (texts ! i)) 512) = Inl msg
                \<longrightarrow> results ! i = [''text'' \<mapsto> Str (texts ! i), ''error'' \<mapsto> Str msg]))"
proof -
  from batch_analyze_ok [OF t n l s, of e w] obtain rs stats w' where
    b: "batch_loop e language save_history texts [] w = (Some rs, w')"
    and len: "length rs = length texts"
    and ba: "batch_analyze e data w = (Inr (rs, stats), w')" by blast
  have item: "rs ! i = fst (analyze_sentiment e (texts ! i) language
                              (snd (batch_loop e language save_history (take i texts) [] w)))"
    if "i < length texts" for i
    using that b by (rule batch_loop_nth)
  have "\<forall>i<length texts.
          rs ! i = fst (analyze_sentiment e (texts ! i) language
                              (snd (batch_loop e language save_history (take i texts) [] w)))
          \<and> (rs ! i) ''text'' = Some (Str (texts ! i))
          \<and> (\<forall>wi m w1 msg.
                wi = snd (batch_loop e language save_history (take i texts) [] w)
                \<and> truncate_text (preprocess_text (demojize e) (texts ! i)) 512 \<noteq> []
                \<and> load_model e language (wi\<lparr>clock_reads := Suc (clock_reads wi)\<rparr>) = (Some m, w1)
                \<and> invoke e (model_calls w1) m
                     (truncate_text (preprocess_text (demojize e) (texts ! i)) 512) = Inl msg
                \<longrightarrow> rs ! i = [''text'' \<mapsto> Str (texts ! i), ''error'' \<mapsto> Str msg])"
  proof (intro allI impI conjI)
    fix i assume i: "i < length texts"
    show "rs ! i = fst (analyze_sentiment e (texts ! i) language
                              (snd (batch_loop e language save_history (take i texts) [] w)))"
      using i by (rule item)
    show "(rs ! i) ''text'' = Some (Str (texts ! i))"
      unfolding item [OF i] by (rule analyze_text_field)
  next
    fix i wi m w1 msg
    assume i: "i < length texts"
      and h: "wi = snd (batch_loop e language save_history (take i texts) [] w)
                \<and> truncate_text (preprocess_text (demojize e) (texts ! i)) 512 \<noteq> []
                \<and> load_model e language (wi\<lparr>clock_reads := Suc (clock_reads wi)\<rparr>) = (Some m, w1)
                \<and> invoke e (model_calls w1) m
                     (truncate_text (preprocess_text (demojize e) (texts ! i)) 512) = Inl msg"
    from h have h0: "wi = snd (batch_loop e language save_history (take i texts) [] w)"
      by (rule conjunct1)
    from h have h1: "truncate_text (preprocess_text (demojize e) (texts ! i)) 512 \<noteq> []"
      by (elim conjE)
    from h have h2: "load_model e language (wi\<lparr>clock_reads := Suc (clock_reads wi)\<rparr>) = (Some m, w1)"
      by (elim conjE)
    from h have h3: "invoke e (model_calls w1) m
                 (truncate_text (preprocess_text (demojize e) (texts ! i)) 512) = Inl msg"
      by (elim conjE)
    from analyze_invoke_raised [OF h1 h2 h3]
    have "fst (analyze_sentiment e (texts ! i) language wi)
            = [''text'' \<mapsto> Str (texts ! i), ''error'' \<mapsto> Str msg]" by simp
    then show "rs ! i = [''text'' \<mapsto> Str (texts ! i), ''error'' \<mapsto> Str msg]"
      unfolding item [OF i] h0 .
  qed
  with ba len show ?thesis
    by - (rule exI [of _ rs], rule exI [of _ stats], rule exI [of _ w'],
          rule conjI, assumption, rule conjI, assumption, assumption)
qed

theorem batch_isolation_witness:
  "req_texts batch0 = Some [''I love it'', ''crash'', '''', ''bad'']
   \<and> length [''I love it'', ''crash'', '''', ''bad''] \<le> 100
   \<and> \<not> isl (fst (batch_analyze env_ok batch0 world0))
   \<and> length (fst (projr (fst (batch_analyze env_ok batch0 world0)))) = 4
   \<and> (fst (projr (fst (batch_analyze env_ok batch0 world0))) ! 1) ''error''
       = Some (Str ''out of memory'')
   \<and> (fst (projr (fst (batch_analyze env_ok batch0 world0))) ! 1) ''text''
       = Some (Str ''crash'')
   \<and> (fst (projr (fst (batch_analyze env_ok batch0 world0))) ! 3) ''sentiment''
       = Some (Str ''NEGATIVE'')"
proof -
  have t: "req_texts batch0 = Some [''I love it'', ''crash'', '''', ''bad'']"
    by (simp add: batch0_def)
  have n: "length [''I love it'', ''crash'', '''', ''bad''] \<le> 100" by simp
  have l: "''en'' = (case req_language batch0 of None \<Rightarrow> ''en'' | Some l \<Rightarrow> l)"
    by (simp add: batch0_def)
  have s: "True = (case req_save_history batch0 of None \<Rightarrow> True | Some b \<Rightarrow> b)"
    by (simp add: batch0_def)
  have e1: "(fst (projr (fst (batch_analyze env_ok batch0 world0))) ! 1) ''error''
       = Some (Str ''out of memory'')"
    by code_simp
  have e3: "(fst (projr (fst (batch_analyze env_ok batch0 world0))) ! 3) ''sentiment''
       = Some (Str ''NEGATIVE'')"
    by code_simp
  from batch_isolation [OF t n l s, of env_ok world0] obtain results stats w' where
    ba: "batch_analyze env_ok batch0 world0 = (Inr (results, stats), w')"
    and len: "length results = length [''I love it'', ''crash'', '''', ''bad'']"
    and item: "\<forall>i<length [''I love it'', ''crash'', '''', ''bad''].
          results ! i = fst (analyze_sentiment env_ok ([''I love it'', ''crash'', '''', ''bad''] ! i)
                              ''en''
                              (snd (batch_loop env_ok ''en'' True
                                     (take i [''I love it'', ''crash'', '''', ''bad'']) [] world0)))
          \<and> (results ! i) ''text'' = Some (Str ([''I love it'', ''crash'', '''', ''bad''] ! i))
          \<and> (\<forall>wi m w1 msg.
                wi = snd (batch_loop env_ok ''en'' True
                            (take i [''I love it'', ''crash'', '''', ''bad'']) [] world0)
                \<and> truncate_text (preprocess_text (demojize env_ok)
                                   ([''I love it'', ''crash'', '''', ''bad''] ! i)) 512 \<noteq> []
                \<and> load_model env_ok ''en'' (wi\<lparr>clock_reads := Suc (clock_reads wi)\<rparr>) = (Some m, w1)
                \<and> invoke env_ok (model_calls w1) m
                     (truncate_text (preprocess_text (demojize env_ok)
                                       ([''I love it'', ''crash'', '''', ''bad''] ! i)) 512) = Inl msg
                \<longrightarrow> results ! i = [''text'' \<mapsto> Str ([''I love it'', ''crash'', '''', ''bad''] ! i),
                                   ''error'' \<mapsto> Str msg])"
    by (elim exE conjE) (rule that)
  from ba have ok: "\<not> isl (fst (batch_analyze env_ok batch0 world0))" by simp
  from ba len have len4: "length (fst (projr (fst (batch_analyze env_ok batch0 world0)))) = 4"
    by simp
  have one: "1 < length [''I love it'', ''crash'', '''', ''bad'']" by simp
  from item [THEN spec, THEN mp, OF one]
  have "(results ! 1) ''text'' = Some (Str ([''I love it'', ''crash'', '''', ''bad''] ! 1))"
    by (elim conjE)
  with ba have tx: "(fst (projr (fst (batch_analyze env_ok batch0 world0))) ! 1) ''text''
       = Some (Str ''crash'')" by simp
  from t n ok len4 e1 tx e3 show ?thesis by (intro conjI)
qed

text \<open>
  Claim C2. For a batch of at most 100 texts the statistics have \<open>total\<close> equal to
  the number of texts, \<open>successful\<close> equal to the number of results without an error,
  and \<open>successful + failed = total\<close>; the key \<open>sentiment_distribution\<close> is absent
  exactly when no result is successful; and when it is present its counts add up to
  \<open>successful\<close>, for models that answer with the labels of the configured models.
\<close>

theorem batch_statistics_invariant:
  assumes t: "req_texts data = Some texts" and n: "length texts \<le> 100"
  shows "\<exists>results stats w'.
     batch_analyze e data w = (Inr (results, stats), w')
     \<and> total stats = int (length texts)
     \<and> successful stats = int (length (filter (\<lambda>r. r ''error'' = None) results))
     \<and> successful stats + failed stats = total stats
     \<and> (sentiment_distribution stats = None) = (successful stats = 0)
     \<and> (schema_model e \<longrightarrow>
          (\<forall>d. sentiment_distribution stats = Some d \<longrightarrow>
                sum_list (map snd d) = successful stats))"
proof -
  define language where "language = (case req_language data of None \<Rightarrow> ''en'' | Some l \<Rightarrow> l)"
  define save_history where
    "save_history = (case req_save_history data of None \<Rightarrow> True | Some b \<Rightarrow> b)"
  from batch_analyze_ok [OF t n language_def save_history_def, of e w] obtain rs stats w' where
    b: "batch_loop e language save_history texts [] w = (Some rs, w')"
    and st: "batch_statistics texts rs = Some stats"
    and ba: "batch_analyze e data w = (Inr (rs, stats), w')" by blast
  have res: "\<exists>t wi. r = fst (analyze_sentiment e t language wi)" if "r \<in> set rs" for r
    using b that by (rule batch_loop_results)
  have some: "\<forall>r\<in>set rs. r ''error'' = None \<longrightarrow> (\<exists>s. r ''sentiment'' = Some s)"
  proof (intro ballI impI)
    fix r assume "r \<in> set rs" and ne: "r ''error'' = None"
    from res [OF this(1)] obtain t wi
      where "r = fst (analyze_sentiment e t language wi)" by blast
    with analyze_no_error_fields [of e t language wi] ne
    show "\<exists>s. r ''sentiment'' = Some s" by auto
  qed
  have known: "\<forall>r\<in>set rs. r ''error'' = None \<longrightarrow>
            r ''sentiment'' = Some (Str ''POSITIVE'') \<or> r ''sentiment'' = Some (Str ''NEGATIVE'')
            \<or> r ''sentiment'' = Some (Str ''NEUTRAL'')" if sm: "schema_model e"
  proof (intro ballI impI)
    fix r assume "r \<in> set rs" and ne: "r ''error'' = None"
    from res [OF this(1)] obtain t wi
      where r: "r = fst (analyze_sentiment e t language wi)" by blast
    from analyze_schema_sentiment [OF sm, of t language wi] ne r
    show "r ''sentiment'' = Some (Str ''POSITIVE'') \<or> r ''sentiment'' = Some (Str ''NEGATIVE'')
            \<or> r ''sentiment'' = Some (Str ''NEUTRAL'')" by simp
  qed
  from batch_statistics_shape [OF some, of texts] st known
  have "total stats = int (length texts)
     \<and> successful stats = int (length (filter (\<lambda>r. r ''error'' = None) rs))
     \<and> successful stats + failed stats = total stats
     \<and> (sentiment_distribution stats = None) = (successful stats = 0)
     \<and> (schema_model e \<longrightarrow>
          (\<forall>d. sentiment_distribution stats = Some d \<longrightarrow>
                sum_list (map snd d) = successful stats))"
    by auto
  with ba show ?thesis
    by (intro exI [of _ rs] exI [of _ stats] exI [of _ w']) simp
qed

theorem batch_statistics_invariant_witness:
  "req_texts batch0 = Some [''I love it'', ''crash'', '''', ''bad'']
   \<and> length [''I love it'', ''crash'', '''', ''bad''] \<le> 100
   \<and> schema_model env_ok
   \<and> total (snd (projr (fst (batch_analyze env_ok batch0 world0)))) = 4
   \<and> successful (snd (projr (fst (batch_analyze env_ok batch0 world0)))) = 2
   \<and> failed (snd (projr (fst (batch_analyze env_ok batch0 world0)))) = 2
   \<and> sentiment_distribution (snd (projr (fst (batch_analyze env_ok batch0 world0))))
       = Some [(''POSITIVE'', 1), (''NEGATIVE'', 1), (''NEUTRAL'', 0)]
   \<and> req_texts batch_blank = Some ['' '', '''']
   \<and> successful (snd (projr (fst (batch_analyze env_ok batch_blank world0)))) = 0
   \<and> sentiment_distribution (snd (projr (fst (batch_analyze env_ok batch_blank world0)))) = None"
proof -
  have t: "req_texts batch0 = Some [''I love it'', ''crash'', '''', ''bad'']"
    by (simp add: batch0_def)
  have n: "length [''I love it'', ''crash'', '''', ''bad''] \<le> 100" by simp
  have d: "sentiment_distribution (snd (projr (fst (batch_analyze env_ok batch0 world0))))
       = Some [(''POSITIVE'', 1), (''NEGATIVE'', 1), (''NEUTRAL'', 0)]"
    by code_simp
  have f: "failed (snd (projr (fst (batch_analyze env_ok batch0 world0)))) = 2"
    by code_simp
  have sc: "successful (snd (projr (fst (batch_analyze env_ok batch0 world0)))) = 2"
    by code_simp
  from batch_statistics_invariant [OF t n, of env_ok world0] obtain results stats w' where
    ba: "batch_analyze env_ok batch0 world0 = (Inr (results, stats), w')"
    and tot0: "total stats = int (length [''I love it'', ''crash'', '''', ''bad''])"
    by (elim exE conjE) (rule that)
  from ba tot0 have tot: "total (snd (projr (fst (batch_analyze env_ok batch0 world0)))) = 4"
    by simp
  have tb: "req_texts batch_blank = Some ['' '', '''']" by (simp add: batch_blank_def)
  have nb: "length ['' '', ''''] \<le> 100" by simp
  have sb: "successful (snd (projr (fst (batch_analyze env_ok batch_blank world0)))) = 0"
    by code_simp
  from batch_statistics_invariant [OF tb nb, of env_ok world0] obtain results' stats' w'' where
    bb: "batch_analyze env_ok batch_blank world0 = (Inr (results', stats'), w'')"
    and none: "(sentiment_distribution stats' = None) = (successful stats' = 0)"
    by (elim exE conjE) (rule that)
  from bb sb none have db:
    "sentiment_distribution (snd (projr (fst (batch_analyze env_ok batch_blank world0)))) = None"
    by simp
  from t n schema_model_env_ok tot sc f d tb sb db show ?thesis by (intro conjI)
qed

end
